theory Spec2Isabelle
  imports Complex_Main "HOL-Library.Sublist"
begin

section \<open>Python primitives used by the servers\<close>

text \<open>
  The three servers are Python programs. Text is modelled as \<open>string\<close> (a list of
  characters); on ASCII text, lengths, slices and substring tests agree with Python's
  \<open>str\<close>. Similarity scores are Python floats produced by the external embedding
  model and by \<open>cosine_similarity\<close>; both are parameters of the model and the scores
  are taken in \<open>real\<close>, of which only the order is used: the scores of one call
  are assumed comparable with each other (none is a NaN).
\<close>

text \<open>Truthiness of an optional string or list: \<open>None\<close> and the empty value are false.\<close>

definition truthy :: "'a list option \<Rightarrow> bool" where
  "truthy v = (case v of None \<Rightarrow> False | Some xs \<Rightarrow> xs \<noteq> [])"

text \<open>
  The slice \<open>xs[:k]\<close>: the first \<open>k\<close> elements for \<open>k \<ge> 0\<close>; for a negative
  \<open>k\<close> the stop index is \<open>len(xs) + k\<close>, clipped at \<open>0\<close>.
\<close>

definition py_slice_to :: "'a list \<Rightarrow> int \<Rightarrow> 'a list" where
  "py_slice_to xs k =
     (if 0 \<le> k then take (nat k) xs else take (nat (int (length xs) + k)) xs)"

text \<open>
  \<open>xs.sort(key=f, reverse=True)\<close> and \<open>sorted(xs, key=f, reverse=True)\<close>: CPython
  reverses the list, runs its stable ascending sort and reverses the result.
\<close>

definition py_sort_reverse :: "('a \<Rightarrow> 'k::linorder) \<Rightarrow> 'a list \<Rightarrow> 'a list" where
  "py_sort_reverse f xs = rev (sort_key f (rev xs))"

text \<open>\<open>s.lower()\<close> on ASCII text.\<close>

definition lower_char :: "char \<Rightarrow> char" where
  "lower_char c =
     (let n = (of_char c :: nat) in if 65 \<le> n \<and> n \<le> 90 then char_of (n + 32) else c)"

definition upper_char :: "char \<Rightarrow> char" where
  "upper_char c =
     (let n = (of_char c :: nat) in if 97 \<le> n \<and> n \<le> 122 then char_of (n - 32) else c)"

definition is_alpha :: "char \<Rightarrow> bool" where
  "is_alpha c =
     (let n = (of_char c :: nat) in (65 \<le> n \<and> n \<le> 90) \<or> (97 \<le> n \<and> n \<le> 122))"

definition lower :: "string \<Rightarrow> string" where
  "lower s = map lower_char s"

text \<open>\<open>w in s\<close> for two strings: \<open>w\<close> occurs as a contiguous substring of \<open>s\<close>.\<close>

fun str_contains :: "string \<Rightarrow> string \<Rightarrow> bool" where
  "str_contains w [] = (w = [])"
| "str_contains w (c # cs) = (prefix w (c # cs) \<or> str_contains w cs)"

text \<open>\<open>any(word in text for word in words)\<close>.\<close>

definition any_in :: "string list \<Rightarrow> string \<Rightarrow> bool" where
  "any_in ws s = list_ex (\<lambda>w. str_contains w s) ws"

text \<open>\<open>sep.join(xs)\<close>.\<close>

fun join :: "string \<Rightarrow> string list \<Rightarrow> string" where
  "join sep [] = []"
| "join sep [x] = x"
| "join sep (x # y # ys) = x @ sep @ join sep (y # ys)"

text \<open>
  \<open>s.title()\<close> on ASCII text: a letter that follows a letter is lower-cased, any
  other letter is upper-cased.
\<close>

fun title_from :: "bool \<Rightarrow> string \<Rightarrow> string" where
  "title_from prev [] = []"
| "title_from prev (c # cs) =
     (if is_alpha c
      then (if prev then lower_char c else upper_char c) # title_from True cs
      else c # title_from False cs)"

definition title :: "string \<Rightarrow> string" where
  "title s = title_from False s"

text \<open>
  A dictionary of counters in insertion order, and the update
  \<open>d[k] = d.get(k, 0) + 1\<close>: an existing key keeps its place, a new key goes last.
\<close>

fun dict_incr :: "'k \<Rightarrow> ('k \<times> nat) list \<Rightarrow> ('k \<times> nat) list" where
  "dict_incr k [] = [(k, 1)]"
| "dict_incr k ((k', n) # d) = (if k' = k then (k', n + 1) # d else (k', n) # dict_incr k d)"

text \<open>The loop \<open>for x in xs: d[x] = d.get(x, 0) + 1\<close>.\<close>

fun count_into :: "('k \<times> nat) list \<Rightarrow> 'k list \<Rightarrow> ('k \<times> nat) list" where
  "count_into d [] = d"
| "count_into d (x # xs) = count_into (dict_incr x d) xs"

text \<open>
  \<open>sorted(d.items(), key=lambda x: x[1], reverse=True)[:10]\<close> followed by the
  projection to the keys.
\<close>

definition top10 :: "('k \<times> nat) list \<Rightarrow> 'k list" where
  "top10 d = map fst (py_slice_to (py_sort_reverse snd d) 10)"

section \<open>Resume server\<close>

record resume =
  r_id :: string
  r_user_id :: string
  r_name :: string
  r_email :: string
  r_skills :: "string list"
  r_experience :: string
  r_education :: string
  r_raw_text :: string
  r_embedding :: "real list option"

record match_request =
  mr_job_description :: string
  mr_top_k :: int
  mr_exclude_user_id :: "string option"

text \<open>One entry of the \<open>matches\<close> list of \<open>/match-candidates\<close>.\<close>

record candidate_match =
  cm_resume_id :: string
  cm_name :: string
  cm_skills :: "string list"
  cm_similarity_score :: real
  cm_experience_snippet :: string

text \<open>
  The dictionary \<open>/match-candidates\<close> returns: the key \<open>matches\<close> is always there,
  \<open>message\<close> and \<open>total_candidates\<close> are \<open>None\<close> when the key is absent.
\<close>

record candidates_response =
  cr_matches :: "candidate_match list"
  cr_message :: "string option"
  cr_total_candidates :: "nat option"

text \<open>
  \<open>text[:n] + "..." if len(text) > n else text\<close>, the snippets of both servers.
\<close>

definition snippet :: "nat \<Rightarrow> string \<Rightarrow> string" where
  "snippet n s = (if length s > n then take n s @ ''...'' else s)"

text \<open>
  The loop of \<open>match_candidates\<close> over the (already filtered) resumes: a resume whose
  embedding is \<open>None\<close> or empty is skipped, any other appends one entry.
\<close>

fun candidate_entries ::
  "(real list \<Rightarrow> real list \<Rightarrow> real) \<Rightarrow> real list \<Rightarrow> resume list \<Rightarrow> candidate_match list" where
  "candidate_entries cosine job_embedding [] = []"
| "candidate_entries cosine job_embedding (r # rs) =
     (case r_embedding r of
        None \<Rightarrow> candidate_entries cosine job_embedding rs
      | Some e \<Rightarrow>
          (if e = [] then candidate_entries cosine job_embedding rs
           else \<lparr>cm_resume_id = r_id r, cm_name = r_name r, cm_skills = r_skills r,
                 cm_similarity_score = cosine job_embedding e,
                 cm_experience_snippet = snippet 200 (r_experience r)\<rparr>
                # candidate_entries cosine job_embedding rs))"

text \<open>
  \<open>match_candidates\<close>: \<open>encode\<close> is the embedding model, \<open>cosine\<close> the similarity of
  two vectors, \<open>stored\<close> the list \<open>load_resumes()\<close> returns, in file order.
\<close>

definition match_candidates ::
  "(string \<Rightarrow> real list) \<Rightarrow> (real list \<Rightarrow> real list \<Rightarrow> real) \<Rightarrow>
   match_request \<Rightarrow> resume list \<Rightarrow> candidates_response" where
  "match_candidates encode cosine request stored =
     (if stored = []
      then \<lparr>cr_matches = [], cr_message = Some ''No resumes available'',
            cr_total_candidates = None\<rparr>
      else
        let resumes =
              (if truthy (mr_exclude_user_id request)
               then filter (\<lambda>r. Some (r_user_id r) \<noteq> mr_exclude_user_id request) stored
               else stored);
            job_embedding = encode (mr_job_description request);
            matches = candidate_entries cosine job_embedding resumes;
            ranked = py_sort_reverse cm_similarity_score matches
        in \<lparr>cr_matches = py_slice_to ranked (mr_top_k request), cr_message = None,
            cr_total_candidates = Some (length resumes)\<rparr>)"

text \<open>
  \<open>get_resume_insights\<close>. The result of an empty store has an empty
  \<open>experience_levels\<close> dictionary; otherwise the dictionary starts as
  \<open>{"Entry": 0, "Mid": 0, "Senior": 0}\<close> and the loop adds one to exactly one of its
  keys per resume (the keys exist, so \<open>+= 1\<close> is \<open>dict_incr\<close>).
  \<open>list_of_set\<close> stands for \<open>list(set(xs))\<close>, whose order Python does not fix.
\<close>

record resume_insight =
  total_resumes :: nat
  top_skills :: "string list"
  experience_levels :: "(string \<times> nat) list"
  education_backgrounds :: "string list"

fun experience_loop :: "(string \<times> nat) list \<Rightarrow> resume list \<Rightarrow> (string \<times> nat) list" where
  "experience_loop levels [] = levels"
| "experience_loop levels (r # rs) =
     (if any_in [''senior'', ''lead'', ''manager'', ''director''] (lower (r_experience r))
      then experience_loop (dict_incr ''Senior'' levels) rs
      else if any_in [''years'', ''experience''] (lower (r_experience r))
              \<and> \<not> any_in [''entry'', ''junior'', ''intern''] (lower (r_experience r))
      then experience_loop (dict_incr ''Mid'' levels) rs
      else experience_loop (dict_incr ''Entry'' levels) rs)"

definition get_resume_insights ::
  "(string list \<Rightarrow> string list) \<Rightarrow> resume list \<Rightarrow> resume_insight" where
  "get_resume_insights list_of_set resumes =
     (if resumes = []
      then \<lparr>total_resumes = 0, top_skills = [], experience_levels = [],
            education_backgrounds = []\<rparr>
      else
        let all_skills = concat (map r_skills resumes);
            skill_counts = count_into [] all_skills;
            levels = experience_loop [(''Entry'', 0), (''Mid'', 0), (''Senior'', 0)] resumes;
            backgrounds =
              list_of_set (map (\<lambda>r. snippet 50 (r_education r))
                             (filter (\<lambda>r. r_education r \<noteq> []) resumes))
        in \<lparr>total_resumes = length resumes, top_skills = top10 skill_counts,
            experience_levels = levels,
            education_backgrounds = py_slice_to backgrounds 10\<rparr>)"

section \<open>Job server\<close>

record job_posting =
  j_id :: string
  j_employer_id :: string
  j_title :: string
  j_company :: string
  j_description :: string
  j_requirements :: "string list"
  j_location :: string
  j_salary_range :: "string option"
  j_job_type :: string
  j_embedding :: "real list option"

record job_match_request =
  jmr_resume_text :: string
  jmr_top_k :: int
  jmr_exclude_employer_id :: "string option"

record job_match =
  jm_job_id :: string
  jm_title :: string
  jm_company :: string
  jm_location :: string
  jm_similarity_score :: real
  jm_description_snippet :: string
  jm_requirements :: "string list"
  jm_salary_range :: "string option"

record jobs_response =
  jr_matches :: "job_match list"
  jr_message :: "string option"
  jr_total_jobs :: "nat option"

fun job_entries ::
  "(real list \<Rightarrow> real list \<Rightarrow> real) \<Rightarrow> real list \<Rightarrow> job_posting list \<Rightarrow> job_match list" where
  "job_entries cosine resume_embedding [] = []"
| "job_entries cosine resume_embedding (j # js) =
     (case j_embedding j of
        None \<Rightarrow> job_entries cosine resume_embedding js
      | Some e \<Rightarrow>
          (if e = [] then job_entries cosine resume_embedding js
           else \<lparr>jm_job_id = j_id j, jm_title = j_title j, jm_company = j_company j,
                 jm_location = j_location j,
                 jm_similarity_score = cosine resume_embedding e,
                 jm_description_snippet = snippet 200 (j_description j),
                 jm_requirements = py_slice_to (j_requirements j) 5,
                 jm_salary_range = j_salary_range j\<rparr>
                # job_entries cosine resume_embedding js))"

definition match_jobs ::
  "(string \<Rightarrow> real list) \<Rightarrow> (real list \<Rightarrow> real list \<Rightarrow> real) \<Rightarrow>
   job_match_request \<Rightarrow> job_posting list \<Rightarrow> jobs_response" where
  "match_jobs encode cosine request stored =
     (if stored = []
      then \<lparr>jr_matches = [], jr_message = Some ''No jobs available'', jr_total_jobs = None\<rparr>
      else
        let jobs =
              (if truthy (jmr_exclude_employer_id request)
               then filter (\<lambda>j. Some (j_employer_id j) \<noteq> jmr_exclude_employer_id request)
                      stored
               else stored);
            resume_embedding = encode (jmr_resume_text request);
            matches = job_entries cosine resume_embedding jobs;
            ranked = py_sort_reverse jm_similarity_score matches
        in \<lparr>jr_matches = py_slice_to ranked (jmr_top_k request), jr_message = None,
            jr_total_jobs = Some (length jobs)\<rparr>)"

definition common_skills :: "string list" where
  "common_skills =
     [''python'', ''java'', ''javascript'', ''react'', ''node.js'', ''sql'', ''aws'',
      ''docker'', ''kubernetes'', ''git'', ''machine learning'', ''data analysis'',
      ''project management'', ''communication'', ''leadership'', ''problem solving'',
      ''teamwork'', ''agile'', ''scrum'']"

definition extract_skills_from_job :: "string \<Rightarrow> string list \<Rightarrow> string list" where
  "extract_skills_from_job description requirements =
     (let text = lower (description @ '' '' @ join '' '' requirements)
      in map title (filter (\<lambda>skill. str_contains skill text) common_skills))"

record job_insight =
  total_jobs :: nat
  top_companies :: "string list"
  popular_skills :: "string list"
  job_types :: "(string \<times> nat) list"
  locations :: "string list"

definition get_job_insights ::
  "(string list \<Rightarrow> string list) \<Rightarrow> job_posting list \<Rightarrow> job_insight" where
  "get_job_insights list_of_set jobs =
     (if jobs = []
      then \<lparr>total_jobs = 0, top_companies = [], popular_skills = [], job_types = [],
            locations = []\<rparr>
      else
        let company_counts = count_into [] (map j_company jobs);
            all_skills =
              concat (map (\<lambda>j. extract_skills_from_job (j_description j) (j_requirements j))
                        jobs);
            skill_counts = count_into [] all_skills
        in \<lparr>total_jobs = length jobs, top_companies = top10 company_counts,
            popular_skills = top10 skill_counts,
            job_types = count_into [] (map j_job_type jobs),
            locations = py_slice_to (list_of_set (map j_location jobs)) 10\<rparr>)"

section \<open>Aggregator server\<close>

text \<open>
  The dictionary \<open>{"intent": ..., "type": ...}\<close> the two parsers return; the key
  \<open>type\<close> is the field \<open>intent_type\<close>. In both parsers the first test has two
  inner tests and no inner \<open>else\<close>: a query that passes the first test and neither
  inner one skips the \<open>elif\<close> chain and reaches the final \<open>return\<close>.
\<close>

record intent_data =
  intent :: string
  intent_type :: string

definition parse_job_seeker_query :: "string \<Rightarrow> intent_data" where
  "parse_job_seeker_query query =
     (let query_lower = lower query in
      if any_in [''job'', ''position'', ''role'', ''opportunity''] query_lower then
        (if any_in [''best'', ''top'', ''recommend'', ''suitable''] query_lower
         then \<lparr>intent = ''find_jobs'', intent_type = ''recommendation''\<rparr>
         else if any_in [''how many'', ''count''] query_lower
         then \<lparr>intent = ''job_stats'', intent_type = ''count''\<rparr>
         else \<lparr>intent = ''general'', intent_type = ''help''\<rparr>)
      else if any_in [''skill'', ''improve'', ''missing'', ''gap''] query_lower
      then \<lparr>intent = ''skill_analysis'', intent_type = ''improvement''\<rparr>
      else if any_in [''market'', ''trend'', ''popular'', ''demand''] query_lower
      then \<lparr>intent = ''market_insights'', intent_type = ''trends''\<rparr>
      else if any_in [''resume'', ''cv'', ''profile''] query_lower
      then \<lparr>intent = ''resume_feedback'', intent_type = ''analysis''\<rparr>
      else \<lparr>intent = ''general'', intent_type = ''help''\<rparr>)"

definition parse_employer_query :: "string \<Rightarrow> intent_data" where
  "parse_employer_query query =
     (let query_lower = lower query in
      if any_in [''candidate'', ''applicant'', ''resume''] query_lower then
        (if any_in [''best'', ''top'', ''recommend'', ''suitable''] query_lower
         then \<lparr>intent = ''find_candidates'', intent_type = ''recommendation''\<rparr>
         else if any_in [''how many'', ''count''] query_lower
         then \<lparr>intent = ''candidate_stats'', intent_type = ''count''\<rparr>
         else \<lparr>intent = ''general'', intent_type = ''help''\<rparr>)
      else if any_in [''skill'', ''talent'', ''expertise''] query_lower
      then \<lparr>intent = ''skill_analysis'', intent_type = ''market''\<rparr>
      else if any_in [''job'', ''position'', ''posting''] query_lower
      then \<lparr>intent = ''job_management'', intent_type = ''analysis''\<rparr>
      else \<lparr>intent = ''general'', intent_type = ''help''\<rparr>)"

text \<open>
  What a call to another server returns: the JSON body of the endpoint, or the dictionary
  \<open>{"error": ...}\<close> that \<open>call_resume_server\<close> and \<open>call_job_server\<close> build when the
  request fails. Only a \<open>Reply\<close> of a match endpoint has the key \<open>matches\<close>, and only
  a \<open>Reply\<close> of an insights endpoint has the keys of the insight.
\<close>

datatype 'a reply = Reply 'a | ErrorReply string

record servers =
  post_match_candidates :: "match_request \<Rightarrow> candidates_response reply"
  post_match_jobs :: "job_match_request \<Rightarrow> jobs_response reply"
  fetch_resume_insights :: "resume_insight reply"
  fetch_job_insights :: "job_insight reply"

record chat_query =
  cq_user_id :: string
  cq_user_type :: string
  cq_query :: string
  cq_context :: "(string \<times> string) list option"

datatype chat_data =
    JobMatches jobs_response
  | CandidateMatches candidates_response
  | SkillInsights "job_insight reply" "resume_insight reply"
  | MarketInsights "job_insight reply"
  | TalentInsights "resume_insight reply"

record chat_response =
  response :: string
  data :: "chat_data option"
  suggestions :: "string list"

text \<open>\<open>str(n)\<close> of a non-negative integer, as the f-strings print it.\<close>

fun str_nat :: "nat \<Rightarrow> string" where
  "str_nat n =
     (if n < 10 then [char_of (48 + n)] else str_nat (n div 10) @ [char_of (48 + n mod 10)])"

declare str_nat.simps [simp del]

text \<open>
  The characters of the source's literals outside ASCII, as their UTF-8 bytes: the pin,
  the target, the briefcase, the memo, the bar chart, the rising chart and the bullet.
\<close>

definition pin :: string where
  "pin = [CHR 0xF0, CHR 0x9F, CHR 0x93, CHR 0x8D]"

definition target :: string where
  "target = [CHR 0xF0, CHR 0x9F, CHR 0x8E, CHR 0xAF]"

definition briefcase :: string where
  "briefcase = [CHR 0xF0, CHR 0x9F, CHR 0x92, CHR 0xBC]"

definition memo :: string where
  "memo = [CHR 0xF0, CHR 0x9F, CHR 0x93, CHR 0x9D]"

definition bar_chart :: string where
  "bar_chart = [CHR 0xF0, CHR 0x9F, CHR 0x93, CHR 0x8A]"

definition rising_chart :: string where
  "rising_chart = [CHR 0xF0, CHR 0x9F, CHR 0x93, CHR 0x88]"

definition bullet :: string where
  "bullet = [CHR 0xE2, CHR 0x80, CHR 0xA2]"

text \<open>
  \<open>query.context.get(key, "") if query.context else fallback\<close>: a context that is
  \<open>None\<close> or the empty dictionary is false.
\<close>

definition context_get :: "(string \<times> string) list option \<Rightarrow> string \<Rightarrow> string \<Rightarrow> string" where
  "context_get ctx key fallback =
     (case ctx of
        None \<Rightarrow> fallback
      | Some d \<Rightarrow>
          (if d = [] then fallback
           else (case map_of d key of None \<Rightarrow> [] | Some v \<Rightarrow> v)))"

text \<open>
  The bodies of the two \<open>for i, x in enumerate(matches[:3], 1)\<close> loops and of the
  numbered skill lists; \<open>fmt2f\<close> is the float format \<open>:.2f\<close>.
\<close>

definition job_lines :: "(real \<Rightarrow> string) \<Rightarrow> nat \<times> job_match \<Rightarrow> string" where
  "job_lines fmt2f p =
     (case p of (i, job) \<Rightarrow>
        str_nat i @ ''. **'' @ jm_title job @ ''** at '' @ jm_company job @ ''\<newline>''
        @ ''   '' @ pin @ '' '' @ jm_location job @ '' | Match Score: ''
        @ fmt2f (jm_similarity_score job) @ ''\<newline>''
        @ ''   '' @ jm_description_snippet job @ ''\<newline>\<newline>'')"

definition candidate_lines :: "(real \<Rightarrow> string) \<Rightarrow> nat \<times> candidate_match \<Rightarrow> string" where
  "candidate_lines fmt2f p =
     (case p of (i, candidate) \<Rightarrow>
        str_nat i @ ''. **'' @ cm_name candidate @ ''**\<newline>''
        @ ''   '' @ target @ '' Match Score: ''
        @ fmt2f (cm_similarity_score candidate) @ ''\<newline>''
        @ ''   '' @ briefcase @ '' Skills: ''
        @ join '', '' (py_slice_to (cm_skills candidate) 4) @ ''\<newline>''
        @ ''   '' @ memo @ '' '' @ cm_experience_snippet candidate @ ''\<newline>\<newline>'')"

definition skill_line :: "nat \<times> string \<Rightarrow> string" where
  "skill_line p = (case p of (i, skill) \<Rightarrow> str_nat i @ ''. '' @ skill @ ''\<newline>'')"

definition level_line :: "string \<times> nat \<Rightarrow> string" where
  "level_line p =
     (case p of (level, n) \<Rightarrow>
        bullet @ '' '' @ level @ '': '' @ str_nat n @ '' candidates\<newline>'')"

text \<open>The default response at the end of \<open>handle_chat_query\<close>.\<close>

definition default_response :: "chat_query \<Rightarrow> chat_response" where
  "default_response query =
     \<lparr>response =
        ''I'' @ [CHR 0x27] @ ''m here to help! I can assist with job matching, skill analysis, and market insights. What would you like to know?'',
      data = None,
      suggestions =
        [(if cq_user_type query = ''job_seeker'' then ''Find me suitable jobs''
          else ''Show me qualified candidates''),
         ''Analyze market trends'', ''Get skill recommendations'']\<rparr>"

text \<open>
  \<open>handle_chat_query\<close>. The servers are called through \<open>srv\<close>. In the \<open>find_jobs\<close>
  branch the source also posts to \<open>/match-candidates\<close> and drops the answer; the model
  leaves that call out. The test \<open>"matches" in reply\<close> is true of every \<open>Reply\<close> of a
  match endpoint, whatever the length of its list, and false of an \<open>ErrorReply\<close>.
\<close>

definition find_jobs_response ::
  "(real \<Rightarrow> string) \<Rightarrow> servers \<Rightarrow> chat_query \<Rightarrow> chat_response" where
  "find_jobs_response fmt2f srv query =
     (case post_match_jobs srv
             \<lparr>jmr_resume_text = context_get (cq_context query) ''resume_text'' [],
              jmr_top_k = 5, jmr_exclude_employer_id = None\<rparr> of
        Reply job_matches \<Rightarrow>
          \<lparr>response =
             ''I found '' @ str_nat (length (jr_matches job_matches))
             @ '' great job opportunities for you:\<newline>\<newline>''
             @ concat (map (job_lines fmt2f)
                         (enumerate 1 (py_slice_to (jr_matches job_matches) 3))),
           data = Some (JobMatches job_matches),
           suggestions =
             [''Tell me more about the first job'', ''What skills should I improve?'',
              ''Show me remote opportunities'']\<rparr>
      | ErrorReply e \<Rightarrow>
          \<lparr>response =
             ''I couldn'' @ [CHR 0x27] @ ''t find any job matches right now. Try uploading your resume first!'',
           data = None,
           suggestions = [''Upload my resume'', ''View market trends'', ''Get career advice'']\<rparr>)"

definition find_candidates_response ::
  "(real \<Rightarrow> string) \<Rightarrow> servers \<Rightarrow> chat_query \<Rightarrow> chat_response" where
  "find_candidates_response fmt2f srv query =
     (case post_match_candidates srv
             \<lparr>mr_job_description =
                context_get (cq_context query) ''job_description'' ''software developer'',
              mr_top_k = 5, mr_exclude_user_id = Some (cq_user_id query)\<rparr> of
        Reply candidate_matches \<Rightarrow>
          \<lparr>response =
             ''I found '' @ str_nat (length (cr_matches candidate_matches))
             @ '' qualified candidates:\<newline>\<newline>''
             @ concat (map (candidate_lines fmt2f)
                         (enumerate 1 (py_slice_to (cr_matches candidate_matches) 3))),
           data = Some (CandidateMatches candidate_matches),
           suggestions =
             [''Show me more details about candidate 1'', ''Filter by specific skills'',
              ''View candidate portfolios'']\<rparr>
      | ErrorReply e \<Rightarrow>
          \<lparr>response =
             ''No matching candidates found. Try posting a job description first!'',
           data = None,
           suggestions =
             [''Post a new job'', ''View talent market insights'',
              ''Adjust job requirements'']\<rparr>)"

definition seeker_skill_response :: "servers \<Rightarrow> chat_response" where
  "seeker_skill_response srv =
     \<lparr>response =
        ''Based on current market trends, here are the most in-demand skills:\<newline>\<newline>''
        @ (case fetch_job_insights srv of
             Reply job_insights \<Rightarrow>
               concat (map skill_line
                         (enumerate 1 (py_slice_to (popular_skills job_insights) 5)))
           | ErrorReply e \<Rightarrow> [])
        @ ''\<newline>Consider developing these skills to improve your job prospects!'',
      data = Some (SkillInsights (fetch_job_insights srv) (fetch_resume_insights srv)),
      suggestions =
        [''Find jobs requiring these skills'', ''Show me learning resources'',
         ''Analyze my current skills'']\<rparr>"

definition market_response :: "servers \<Rightarrow> chat_response" where
  "market_response srv =
     \<lparr>response =
        bar_chart @ '' **Current Job Market Overview:**\<newline>\<newline>''
        @ bullet @ '' Total active positions: ''
        @ str_nat (case fetch_job_insights srv of
                     Reply job_insights \<Rightarrow> total_jobs job_insights | ErrorReply e \<Rightarrow> 0)
        @ ''\<newline>''
        @ bullet @ '' Top hiring companies: ''
        @ join '', ''
            (py_slice_to
               (case fetch_job_insights srv of
                  Reply job_insights \<Rightarrow> top_companies job_insights | ErrorReply e \<Rightarrow> [])
               3)
        @ ''\<newline>''
        @ bullet @ '' Popular locations: ''
        @ join '', ''
            (py_slice_to
               (case fetch_job_insights srv of
                  Reply job_insights \<Rightarrow> locations job_insights | ErrorReply e \<Rightarrow> [])
               3)
        @ ''\<newline>'',
      data = Some (MarketInsights (fetch_job_insights srv)),
      suggestions =
        [''Show me jobs at top companies'', ''Find remote opportunities'',
         ''What skills are trending?'']\<rparr>"

definition employer_skill_response :: "servers \<Rightarrow> chat_response" where
  "employer_skill_response srv =
     \<lparr>response =
        rising_chart @ '' **Talent Pool Analysis:**\<newline>\<newline>''
        @ (case fetch_resume_insights srv of
             Reply resume_insights \<Rightarrow>
               ''Most common skills in candidate pool:\<newline>''
               @ concat (map skill_line
                           (enumerate 1 (py_slice_to (top_skills resume_insights) 5)))
               @ ''\<newline>**Experience Distribution:**\<newline>''
               @ concat (map level_line (experience_levels resume_insights))
           | ErrorReply e \<Rightarrow> []),
      data = Some (TalentInsights (fetch_resume_insights srv)),
      suggestions =
        [''Find candidates with specific skills'', ''Post job for entry-level candidates'',
         ''View market salary trends'']\<rparr>"

definition handle_chat_query ::
  "(real \<Rightarrow> string) \<Rightarrow> servers \<Rightarrow> chat_query \<Rightarrow> chat_response" where
  "handle_chat_query fmt2f srv query =
     (if cq_user_type query = ''job_seeker'' then
        (let intent_data = parse_job_seeker_query (cq_query query) in
         if intent intent_data = ''find_jobs'' then find_jobs_response fmt2f srv query
         else if intent intent_data = ''skill_analysis'' then seeker_skill_response srv
         else if intent intent_data = ''market_insights'' then market_response srv
         else default_response query)
      else if cq_user_type query = ''employer'' then
        (let intent_data = parse_employer_query (cq_query query) in
         if intent intent_data = ''find_candidates''
         then find_candidates_response fmt2f srv query
         else if intent intent_data = ''skill_analysis'' then employer_skill_response srv
         else default_response query)
      else default_response query)"

section \<open>The distribution rules as a rule list\<close>

text \<open>
  The classification as the specification words it: an ordered list of rules, each a
  test and a bucket, read top-down; the first rule whose test holds gives the bucket.
  \<open>experience_rules\<close> lists the tests of the \<open>if\<close>/\<open>elif\<close>/\<open>else\<close> of
  \<open>get_resume_insights\<close> in their order. The loop of the source is
  \<open>experience_loop\<close> above; the theorems below relate the two.
\<close>

fun first_match :: "(('a \<Rightarrow> bool) \<times> 'b) list \<Rightarrow> 'b \<Rightarrow> 'a \<Rightarrow> 'b" where
  "first_match [] fallback x = fallback"
| "first_match ((test, bucket) # rules) fallback x =
     (if test x then bucket else first_match rules fallback x)"

definition experience_rules :: "((resume \<Rightarrow> bool) \<times> string) list" where
  "experience_rules =
     [(\<lambda>r. any_in [''senior'', ''lead'', ''manager'', ''director''] (lower (r_experience r)),
       ''Senior''),
      (\<lambda>r. any_in [''years'', ''experience''] (lower (r_experience r))
            \<and> \<not> any_in [''entry'', ''junior'', ''intern''] (lower (r_experience r)),
       ''Mid'')]"

definition experience_bucket :: "resume \<Rightarrow> string" where
  "experience_bucket r = first_match experience_rules ''Entry'' r"

section \<open>Facts about the primitives\<close>

text \<open>\<open>str_contains\<close> is the substring test of the library.\<close>

lemma str_contains_sublist: "str_contains w s = sublist w s"
  by (induction s) (auto simp: sublist_Cons_right)

text \<open>Lengths of a slice and of a sorted list.\<close>

lemma length_py_slice_to:
  "0 \<le> k \<Longrightarrow> length (py_slice_to xs k) = min (nat k) (length xs)"
  by (simp add: py_slice_to_def)

lemma length_py_sort_reverse: "length (py_sort_reverse f xs) = length xs"
  by (simp add: py_sort_reverse_def)

lemma py_slice_to_zero: "py_slice_to xs 0 = []"
  by (simp add: py_slice_to_def)

lemma py_slice_to_Nil: "py_slice_to [] k = []"
  by (simp add: py_slice_to_def)

lemma py_slice_to_prefix: "prefix (py_slice_to xs k) xs"
  by (simp add: py_slice_to_def take_is_prefix)

lemma set_py_slice_to: "set (py_slice_to xs k) \<subseteq> set xs"
  by (rule set_mono_prefix [OF py_slice_to_prefix])

lemma set_py_sort_reverse: "set (py_sort_reverse f xs) = set xs"
  by (simp add: py_sort_reverse_def)

lemma py_sort_reverse_Nil: "py_sort_reverse f [] = []"
  by (simp add: py_sort_reverse_def)

text \<open>The sort leaves the keys in non-increasing order.\<close>

lemma py_sort_reverse_descending:
  "sorted_wrt (\<lambda>a b. f b \<le> f a) (py_sort_reverse f xs)"
proof -
  have "sorted (map f (sort_key f (rev xs)))"
    by simp
  then have "sorted_wrt (\<lambda>a b. f a \<le> f b) (sort_key f (rev xs))"
    by (simp add: sorted_map)
  then show ?thesis
    by (simp add: py_sort_reverse_def sorted_wrt_rev)
qed

text \<open>The sort is stable: elements of one key keep the order they had.\<close>

lemma py_sort_reverse_stable:
  "filter (\<lambda>x. f x = s) (py_sort_reverse f xs) = filter (\<lambda>x. f x = s) xs"
proof -
  have "filter (\<lambda>x. f x = s) (py_sort_reverse f xs)
        = rev (filter (\<lambda>x. f x = s) (sort_key f (rev xs)))"
    by (simp add: py_sort_reverse_def rev_filter)
  also have "\<dots> = rev (filter (\<lambda>x. f x = s) (rev xs))"
    by (simp only: sort_key_stable)
  also have "\<dots> = filter (\<lambda>x. f x = s) xs"
    by (simp add: rev_filter)
  finally show ?thesis .
qed

lemma sorted_wrt_prefix: "prefix xs ys \<Longrightarrow> sorted_wrt R ys \<Longrightarrow> sorted_wrt R xs"
  by (auto simp: prefix_def sorted_wrt_append)

text \<open>Truthiness of a value that is there, and records told apart by distinct ids.\<close>

lemma truthy_Some: "truthy (Some x) = (x \<noteq> [])"
  by (simp add: truthy_def)

lemma inj_on_ids: "distinct (map f xs) \<Longrightarrow> a \<in> set xs \<Longrightarrow> b \<in> set xs \<Longrightarrow> f a = f b \<Longrightarrow> a = b"
  by (meson distinct_map inj_on_def)

section \<open>Facts about the counting loops\<close>

text \<open>Each step of a counting loop adds one to one counter.\<close>

lemma sum_dict_incr: "sum_list (map snd (dict_incr k d)) = sum_list (map snd d) + 1"
  by (induction k d rule: dict_incr.induct) auto

lemma sum_count_into:
  "sum_list (map snd (count_into d xs)) = sum_list (map snd d) + length xs"
  by (induction xs arbitrary: d) (auto simp: sum_dict_incr)

lemma sum_experience_loop:
  "sum_list (map snd (experience_loop levels rs)) = sum_list (map snd levels) + length rs"
  by (induction rs arbitrary: levels) (auto simp: sum_dict_incr)

lemma resume_insights_totals:
  "total_resumes (get_resume_insights list_of_set stored) = length stored
   \<and> sum_list (map snd (experience_levels (get_resume_insights list_of_set stored)))
       = length stored"
  by (simp add: get_resume_insights_def Let_def sum_experience_loop)

lemma job_insights_totals:
  "total_jobs (get_job_insights list_of_set stored) = length stored
   \<and> sum_list (map snd (job_types (get_job_insights list_of_set stored))) = length stored"
  by (simp add: get_job_insights_def Let_def sum_count_into)

section \<open>Facts about the two match endpoints\<close>

text \<open>The exclusion step keeps exactly the records that a truthy exclusion id does not own.\<close>

lemma kept_resumes:
  "(if truthy x then filter (\<lambda>r. Some (r_user_id r) \<noteq> x) stored else stored)
   = filter (\<lambda>r. \<not> (truthy x \<and> x = Some (r_user_id r))) stored"
  by (cases "truthy x") (auto intro: filter_cong)

lemma kept_jobs:
  "(if truthy x then filter (\<lambda>j. Some (j_employer_id j) \<noteq> x) stored else stored)
   = filter (\<lambda>j. \<not> (truthy x \<and> x = Some (j_employer_id j))) stored"
  by (cases "truthy x") (auto intro: filter_cong)

text \<open>The list of matches and the total, for every store (the empty one included).\<close>

lemma match_candidates_matches:
  "cr_matches (match_candidates encode cosine request stored)
   = py_slice_to
       (py_sort_reverse cm_similarity_score
          (candidate_entries cosine (encode (mr_job_description request))
             (filter (\<lambda>r. \<not> (truthy (mr_exclude_user_id request)
                              \<and> mr_exclude_user_id request = Some (r_user_id r))) stored)))
       (mr_top_k request)"
  by (simp add: match_candidates_def Let_def kept_resumes py_sort_reverse_Nil py_slice_to_Nil)

lemma match_candidates_total:
  "cr_total_candidates (match_candidates encode cosine request stored)
   = (if stored = [] then None
      else Some (length (filter (\<lambda>r. \<not> (truthy (mr_exclude_user_id request)
                              \<and> mr_exclude_user_id request = Some (r_user_id r))) stored)))"
  by (simp add: match_candidates_def Let_def kept_resumes)

lemma match_jobs_matches:
  "jr_matches (match_jobs encode cosine request stored)
   = py_slice_to
       (py_sort_reverse jm_similarity_score
          (job_entries cosine (encode (jmr_resume_text request))
             (filter (\<lambda>j. \<not> (truthy (jmr_exclude_employer_id request)
                              \<and> jmr_exclude_employer_id request = Some (j_employer_id j)))
                stored)))
       (jmr_top_k request)"
  by (simp add: match_jobs_def Let_def kept_jobs py_sort_reverse_Nil py_slice_to_Nil)

lemma match_jobs_total:
  "jr_total_jobs (match_jobs encode cosine request stored)
   = (if stored = [] then None
      else Some (length (filter (\<lambda>j. \<not> (truthy (jmr_exclude_employer_id request)
                              \<and> jmr_exclude_employer_id request = Some (j_employer_id j)))
                           stored)))"
  by (simp add: match_jobs_def Let_def kept_jobs)

text \<open>Every entry of the loop comes from a record with a non-empty embedding.\<close>

lemma candidate_entries_origin:
  "m \<in> set (candidate_entries cosine q rs) \<Longrightarrow>
   \<exists>r \<in> set rs. \<exists>e. r_embedding r = Some e \<and> e \<noteq> [] \<and>
     m = \<lparr>cm_resume_id = r_id r, cm_name = r_name r, cm_skills = r_skills r,
          cm_similarity_score = cosine q e,
          cm_experience_snippet = snippet 200 (r_experience r)\<rparr>"
  by (induction rs) (auto split: option.splits if_splits)

lemma job_entries_origin:
  "m \<in> set (job_entries cosine q js) \<Longrightarrow>
   \<exists>j \<in> set js. \<exists>e. j_embedding j = Some e \<and> e \<noteq> [] \<and>
     m = \<lparr>jm_job_id = j_id j, jm_title = j_title j, jm_company = j_company j,
          jm_location = j_location j, jm_similarity_score = cosine q e,
          jm_description_snippet = snippet 200 (j_description j),
          jm_requirements = py_slice_to (j_requirements j) 5,
          jm_salary_range = j_salary_range j\<rparr>"
  by (induction js) (auto split: option.splits if_splits)

lemma candidate_entries_no_embedding:
  "\<forall>r \<in> set rs. \<not> truthy (r_embedding r) \<Longrightarrow> candidate_entries cosine q rs = []"
  by (induction rs) (auto simp: truthy_def split: option.splits)

lemma job_entries_no_embedding:
  "\<forall>j \<in> set js. \<not> truthy (j_embedding j) \<Longrightarrow> job_entries cosine q js = []"
  by (induction js) (auto simp: truthy_def split: option.splits)

text \<open>Where an entry of the answer comes from.\<close>

lemma match_candidates_origin:
  assumes "m \<in> set (cr_matches (match_candidates encode cosine request stored))"
  shows "\<exists>r \<in> set stored. \<exists>e.
           \<not> (truthy (mr_exclude_user_id request)
              \<and> mr_exclude_user_id request = Some (r_user_id r))
           \<and> r_embedding r = Some e \<and> e \<noteq> []
           \<and> m = \<lparr>cm_resume_id = r_id r, cm_name = r_name r, cm_skills = r_skills r,
                  cm_similarity_score = cosine (encode (mr_job_description request)) e,
                  cm_experience_snippet = snippet 200 (r_experience r)\<rparr>"
proof -
  let ?kept = "filter (\<lambda>r. \<not> (truthy (mr_exclude_user_id request)
                              \<and> mr_exclude_user_id request = Some (r_user_id r))) stored"
  let ?entries = "candidate_entries cosine (encode (mr_job_description request)) ?kept"
  from assms
  have "m \<in> set (py_slice_to (py_sort_reverse cm_similarity_score ?entries)
                    (mr_top_k request))"
    by (simp only: match_candidates_matches)
  then have "m \<in> set (py_sort_reverse cm_similarity_score ?entries)"
    by (rule subsetD [OF set_py_slice_to])
  then have "m \<in> set ?entries"
    by (simp only: set_py_sort_reverse)
  from candidate_entries_origin [OF this]
  obtain r e where r: "r \<in> set ?kept" and e: "r_embedding r = Some e" "e \<noteq> []"
    and m: "m = \<lparr>cm_resume_id = r_id r, cm_name = r_name r, cm_skills = r_skills r,
                  cm_similarity_score = cosine (encode (mr_job_description request)) e,
                  cm_experience_snippet = snippet 200 (r_experience r)\<rparr>"
    by blast
  from r have "r \<in> set stored"
    and "\<not> (truthy (mr_exclude_user_id request)
              \<and> mr_exclude_user_id request = Some (r_user_id r))"
    by simp_all
  with e m show ?thesis
    by blast
qed

lemma match_jobs_origin:
  assumes "m \<in> set (jr_matches (match_jobs encode cosine request stored))"
  shows "\<exists>j \<in> set stored. \<exists>e.
           \<not> (truthy (jmr_exclude_employer_id request)
              \<and> jmr_exclude_employer_id request = Some (j_employer_id j))
           \<and> j_embedding j = Some e \<and> e \<noteq> []
           \<and> m = \<lparr>jm_job_id = j_id j, jm_title = j_title j, jm_company = j_company j,
                  jm_location = j_location j,
                  jm_similarity_score = cosine (encode (jmr_resume_text request)) e,
                  jm_description_snippet = snippet 200 (j_description j),
                  jm_requirements = py_slice_to (j_requirements j) 5,
                  jm_salary_range = j_salary_range j\<rparr>"
proof -
  let ?kept = "filter (\<lambda>j. \<not> (truthy (jmr_exclude_employer_id request)
                              \<and> jmr_exclude_employer_id request = Some (j_employer_id j)))
                stored"
  let ?entries = "job_entries cosine (encode (jmr_resume_text request)) ?kept"
  from assms
  have "m \<in> set (py_slice_to (py_sort_reverse jm_similarity_score ?entries)
                    (jmr_top_k request))"
    by (simp only: match_jobs_matches)
  then have "m \<in> set (py_sort_reverse jm_similarity_score ?entries)"
    by (rule subsetD [OF set_py_slice_to])
  then have "m \<in> set ?entries"
    by (simp only: set_py_sort_reverse)
  from job_entries_origin [OF this]
  obtain j e where j: "j \<in> set ?kept" and e: "j_embedding j = Some e" "e \<noteq> []"
    and m: "m = \<lparr>jm_job_id = j_id j, jm_title = j_title j, jm_company = j_company j,
                  jm_location = j_location j,
                  jm_similarity_score = cosine (encode (jmr_resume_text request)) e,
                  jm_description_snippet = snippet 200 (j_description j),
                  jm_requirements = py_slice_to (j_requirements j) 5,
                  jm_salary_range = j_salary_range j\<rparr>"
    by blast
  from j have "j \<in> set stored"
    and "\<not> (truthy (jmr_exclude_employer_id request)
              \<and> jmr_exclude_employer_id request = Some (j_employer_id j))"
    by simp_all
  with e m show ?thesis
    by blast
qed

text \<open>
  The answer is a prefix of the ranking, so it is ranked as the ranking is and, among the
  entries of one score, holds an initial part of them in the order the loop made them.
\<close>

lemma ranked_descending:
  "sorted_wrt (\<lambda>a b. f b \<le> f a) (py_slice_to (py_sort_reverse f xs) k)"
  by (rule sorted_wrt_prefix [OF py_slice_to_prefix py_sort_reverse_descending])

lemma ranked_prefix_of_ties:
  "prefix (filter (\<lambda>m. f m = s) (py_slice_to (py_sort_reverse f xs) k))
          (filter (\<lambda>m. f m = s) xs)"
proof -
  have "prefix (filter (\<lambda>m. f m = s) (py_slice_to (py_sort_reverse f xs) k))
               (filter (\<lambda>m. f m = s) (py_sort_reverse f xs))"
    by (rule filter_mono_prefix [OF py_slice_to_prefix])
  then show ?thesis
    by (simp only: py_sort_reverse_stable)
qed

text \<open>
  The loop makes its entries in the order of the store, one per record with a non-empty
  embedding; so the ids of the entries of one score are the ids of the stored records
  of that score, in the order of the store.
\<close>

lemma candidate_entries_in_store_order:
  "candidate_entries cosine q rs
   = map (\<lambda>r. \<lparr>cm_resume_id = r_id r, cm_name = r_name r, cm_skills = r_skills r,
                cm_similarity_score = cosine q (the (r_embedding r)),
                cm_experience_snippet = snippet 200 (r_experience r)\<rparr>)
       (filter (\<lambda>r. truthy (r_embedding r)) rs)"
  by (induction rs) (auto simp: truthy_def split: option.splits)

lemma job_entries_in_store_order:
  "job_entries cosine q js
   = map (\<lambda>j. \<lparr>jm_job_id = j_id j, jm_title = j_title j, jm_company = j_company j,
                jm_location = j_location j,
                jm_similarity_score = cosine q (the (j_embedding j)),
                jm_description_snippet = snippet 200 (j_description j),
                jm_requirements = py_slice_to (j_requirements j) 5,
                jm_salary_range = j_salary_range j\<rparr>)
       (filter (\<lambda>j. truthy (j_embedding j)) js)"
  by (induction js) (auto simp: truthy_def split: option.splits)

lemma candidate_ids_of_score:
  "map cm_resume_id (filter (\<lambda>m. cm_similarity_score m = s) (candidate_entries cosine q rs))
   = map r_id (filter (\<lambda>r. truthy (r_embedding r) \<and> cosine q (the (r_embedding r)) = s) rs)"
  by (simp add: candidate_entries_in_store_order filter_map comp_def conj_commute)

lemma job_ids_of_score:
  "map jm_job_id (filter (\<lambda>m. jm_similarity_score m = s) (job_entries cosine q js))
   = map j_id (filter (\<lambda>j. truthy (j_embedding j) \<and> cosine q (the (j_embedding j)) = s) js)"
  by (simp add: job_entries_in_store_order filter_map comp_def conj_commute)

lemma tied_candidate_ids:
  "prefix
     (map cm_resume_id
        (filter (\<lambda>m. cm_similarity_score m = s)
           (cr_matches (match_candidates encode cosine request stored))))
     (map r_id
        (filter (\<lambda>r. truthy (r_embedding r)
                    \<and> cosine (encode (mr_job_description request)) (the (r_embedding r)) = s)
           (filter (\<lambda>r. \<not> (truthy (mr_exclude_user_id request)
                              \<and> mr_exclude_user_id request = Some (r_user_id r)))
              stored)))"
  unfolding match_candidates_matches candidate_ids_of_score [symmetric]
  by (rule map_mono_prefix [OF ranked_prefix_of_ties])

lemma tied_job_ids:
  "prefix
     (map jm_job_id
        (filter (\<lambda>m. jm_similarity_score m = s)
           (jr_matches (match_jobs encode cosine request stored))))
     (map j_id
        (filter (\<lambda>j. truthy (j_embedding j)
                    \<and> cosine (encode (jmr_resume_text request)) (the (j_embedding j)) = s)
           (filter (\<lambda>j. \<not> (truthy (jmr_exclude_employer_id request)
                              \<and> jmr_exclude_employer_id request = Some (j_employer_id j)))
              stored)))"
  unfolding match_jobs_matches job_ids_of_score [symmetric]
  by (rule map_mono_prefix [OF ranked_prefix_of_ties])

text \<open>
  With a \<open>top_k\<close> that is not negative, the answer has \<open>top_k\<close> entries, or one per
  kept record with an embedding when these are fewer.
\<close>

lemma match_candidates_length:
  "0 \<le> mr_top_k request \<Longrightarrow>
   length (cr_matches (match_candidates encode cosine request stored))
   = min (nat (mr_top_k request))
       (length (filter (\<lambda>r. truthy (r_embedding r))
          (filter (\<lambda>r. \<not> (truthy (mr_exclude_user_id request)
                              \<and> mr_exclude_user_id request = Some (r_user_id r)))
             stored)))"
  by (simp only: match_candidates_matches length_py_slice_to length_py_sort_reverse
        candidate_entries_in_store_order length_map)

lemma match_jobs_length:
  "0 \<le> jmr_top_k request \<Longrightarrow>
   length (jr_matches (match_jobs encode cosine request stored))
   = min (nat (jmr_top_k request))
       (length (filter (\<lambda>j. truthy (j_embedding j))
          (filter (\<lambda>j. \<not> (truthy (jmr_exclude_employer_id request)
                              \<and> jmr_exclude_employer_id request = Some (j_employer_id j)))
             stored)))"
  by (simp only: match_jobs_matches length_py_slice_to length_py_sort_reverse
        job_entries_in_store_order length_map)

section \<open>Ranking order (claim C4)\<close>

text \<open>
  Claim C4. For every call of \<open>match_candidates\<close> and of \<open>match_jobs\<close>, with any
  \<open>top_k\<close> and any exclusion id, the returned list is ordered by non-increasing
  similarity score; for every score \<open>s\<close> the returned entries of score \<open>s\<close> are an
  initial part of the entries of score \<open>s\<close> in the order the loop made them, and
  their ids are an initial part of the ids of the stored records of score \<open>s\<close> (kept by
  the owner filter, with an embedding) in the order of the store: of two entries with
  equal scores the one inserted earlier comes first. The endpoints are functions of
  their input, so a repeated call returns the same list.
\<close>

theorem matches_ranked_by_score_ties_in_insertion_order:
  "sorted_wrt (\<lambda>a b. cm_similarity_score b \<le> cm_similarity_score a)
     (cr_matches (match_candidates encode cosine request stored))
   \<and> (\<forall>s. prefix
          (filter (\<lambda>m. cm_similarity_score m = s)
             (cr_matches (match_candidates encode cosine request stored)))
          (filter (\<lambda>m. cm_similarity_score m = s)
             (candidate_entries cosine (encode (mr_job_description request))
                (filter (\<lambda>r. \<not> (truthy (mr_exclude_user_id request)
                              \<and> mr_exclude_user_id request = Some (r_user_id r)))
                   stored))))
   \<and> (\<forall>s. prefix
          (map cm_resume_id
             (filter (\<lambda>m. cm_similarity_score m = s)
                (cr_matches (match_candidates encode cosine request stored))))
          (map r_id
             (filter (\<lambda>r. truthy (r_embedding r)
                    \<and> cosine (encode (mr_job_description request)) (the (r_embedding r)) = s)
                (filter (\<lambda>r. \<not> (truthy (mr_exclude_user_id request)
                              \<and> mr_exclude_user_id request = Some (r_user_id r)))
                   stored))))
   \<and> sorted_wrt (\<lambda>a b. jm_similarity_score b \<le> jm_similarity_score a)
       (jr_matches (match_jobs encode cosine jrequest jstored))
   \<and> (\<forall>s. prefix
          (filter (\<lambda>m. jm_similarity_score m = s)
             (jr_matches (match_jobs encode cosine jrequest jstored)))
          (filter (\<lambda>m. jm_similarity_score m = s)
             (job_entries cosine (encode (jmr_resume_text jrequest))
                (filter (\<lambda>j. \<not> (truthy (jmr_exclude_employer_id jrequest)
                              \<and> jmr_exclude_employer_id jrequest = Some (j_employer_id j)))
                   jstored))))
   \<and> (\<forall>s. prefix
          (map jm_job_id
             (filter (\<lambda>m. jm_similarity_score m = s)
                (jr_matches (match_jobs encode cosine jrequest jstored))))
          (map j_id
             (filter (\<lambda>j. truthy (j_embedding j)
                    \<and> cosine (encode (jmr_resume_text jrequest)) (the (j_embedding j)) = s)
                (filter (\<lambda>j. \<not> (truthy (jmr_exclude_employer_id jrequest)
                              \<and> jmr_exclude_employer_id jrequest = Some (j_employer_id j)))
                   jstored))))"
proof -
  have "sorted_wrt (\<lambda>a b. cm_similarity_score b \<le> cm_similarity_score a)
     (cr_matches (match_candidates encode cosine request stored))"
    unfolding match_candidates_matches by (rule ranked_descending)
  moreover have "sorted_wrt (\<lambda>a b. jm_similarity_score b \<le> jm_similarity_score a)
       (jr_matches (match_jobs encode cosine jrequest jstored))"
    unfolding match_jobs_matches by (rule ranked_descending)
  moreover have "prefix
          (filter (\<lambda>m. cm_similarity_score m = s)
             (cr_matches (match_candidates encode cosine request stored)))
          (filter (\<lambda>m. cm_similarity_score m = s)
             (candidate_entries cosine (encode (mr_job_description request))
                (filter (\<lambda>r. \<not> (truthy (mr_exclude_user_id request)
                              \<and> mr_exclude_user_id request = Some (r_user_id r)))
                   stored)))" for s
    unfolding match_candidates_matches by (rule ranked_prefix_of_ties)
  moreover have "prefix
          (filter (\<lambda>m. jm_similarity_score m = s)
             (jr_matches (match_jobs encode cosine jrequest jstored)))
          (filter (\<lambda>m. jm_similarity_score m = s)
             (job_entries cosine (encode (jmr_resume_text jrequest))
                (filter (\<lambda>j. \<not> (truthy (jmr_exclude_employer_id jrequest)
                              \<and> jmr_exclude_employer_id jrequest = Some (j_employer_id j)))
                   jstored)))" for s
    unfolding match_jobs_matches by (rule ranked_prefix_of_ties)
  ultimately show ?thesis
    using tied_candidate_ids [of _ encode cosine request stored]
      tied_job_ids [of _ encode cosine jrequest jstored]
    by (intro conjI allI)
qed

text \<open>
  At a store of three resumes whose scores are 1, 2 and 1, in this order, and
  \<open>top_k = 3\<close>: the second resume comes first, then the first and the third, which
  tie, in the order of the store.
\<close>

theorem matches_ranked_by_score_ties_in_insertion_order_witness:
  "map cm_resume_id (cr_matches
     (match_candidates (\<lambda>t. [1]) (\<lambda>u v. sum_list v)
        \<lparr>mr_job_description = ''dev'', mr_top_k = 3, mr_exclude_user_id = None\<rparr>
        [\<lparr>r_id = ''r1'', r_user_id = ''u1'', r_name = ''Ann'', r_email = [],
          r_skills = [], r_experience = [], r_education = [], r_raw_text = [],
          r_embedding = Some [1]\<rparr>,
         \<lparr>r_id = ''r2'', r_user_id = ''u2'', r_name = ''Bob'', r_email = [],
          r_skills = [], r_experience = [], r_education = [], r_raw_text = [],
          r_embedding = Some [2]\<rparr>,
         \<lparr>r_id = ''r3'', r_user_id = ''u3'', r_name = ''Cy'', r_email = [],
          r_skills = [], r_experience = [], r_education = [], r_raw_text = [],
          r_embedding = Some [1]\<rparr>])) = [''r2'', ''r1'', ''r3'']
   \<and> sorted_wrt (\<lambda>a b. cm_similarity_score b \<le> cm_similarity_score a)
     (cr_matches
     (match_candidates (\<lambda>t. [1]) (\<lambda>u v. sum_list v)
        \<lparr>mr_job_description = ''dev'', mr_top_k = 3, mr_exclude_user_id = None\<rparr>
        [\<lparr>r_id = ''r1'', r_user_id = ''u1'', r_name = ''Ann'', r_email = [],
          r_skills = [], r_experience = [], r_education = [], r_raw_text = [],
          r_embedding = Some [1]\<rparr>,
         \<lparr>r_id = ''r2'', r_user_id = ''u2'', r_name = ''Bob'', r_email = [],
          r_skills = [], r_experience = [], r_education = [], r_raw_text = [],
          r_embedding = Some [2]\<rparr>,
         \<lparr>r_id = ''r3'', r_user_id = ''u3'', r_name = ''Cy'', r_email = [],
          r_skills = [], r_experience = [], r_education = [], r_raw_text = [],
          r_embedding = Some [1]\<rparr>]))"
proof -
  let ?store = "[\<lparr>r_id = ''r1'', r_user_id = ''u1'', r_name = ''Ann'', r_email = [],
          r_skills = [], r_experience = [], r_education = [], r_raw_text = [],
          r_embedding = Some [1]\<rparr>,
         \<lparr>r_id = ''r2'', r_user_id = ''u2'', r_name = ''Bob'', r_email = [],
          r_skills = [], r_experience = [], r_education = [], r_raw_text = [],
          r_embedding = Some [2]\<rparr>,
         \<lparr>r_id = ''r3'', r_user_id = ''u3'', r_name = ''Cy'', r_email = [],
          r_skills = [], r_experience = [], r_education = [], r_raw_text = [],
          r_embedding = Some [1]\<rparr>]"
  have ids: "map cm_resume_id (cr_matches
     (match_candidates (\<lambda>t. [1]) (\<lambda>u v. sum_list v)
        \<lparr>mr_job_description = ''dev'', mr_top_k = 3, mr_exclude_user_id = None\<rparr>
        ?store)) = [''r2'', ''r1'', ''r3'']"
    by (simp add: match_candidates_def truthy_def py_slice_to_def py_sort_reverse_def)
  note inst = matches_ranked_by_score_ties_in_insertion_order
    [of "\<lambda>t. [1]" "\<lambda>u v. sum_list v"
        "\<lparr>mr_job_description = ''dev'', mr_top_k = 3, mr_exclude_user_id = None\<rparr>"
        ?store, THEN conjunct1]
  from ids inst show ?thesis
    by (rule conjI)
qed

section \<open>Routing of a count question (claim C7)\<close>

text \<open>
  Claim C7. For an employer (the poster role) the query text
  \<open>how many candidates do we have\<close> is parsed to the intent \<open>candidate_stats\<close> with
  the type \<open>count\<close>, and not to \<open>find_candidates\<close>: the text holds \<open>candidate\<close>,
  none of \<open>best\<close>, \<open>top\<close>, \<open>recommend\<close>, \<open>suitable\<close>, and it holds \<open>how many\<close>.
\<close>

theorem how_many_candidates_is_a_count_query:
  "parse_employer_query ''how many candidates do we have''
     = \<lparr>intent = ''candidate_stats'', intent_type = ''count''\<rparr>
   \<and> intent (parse_employer_query ''how many candidates do we have'') \<noteq> ''find_candidates''"
  by (simp add: parse_employer_query_def any_in_def lower_def lower_char_def)

section \<open>The empty string as exclusion id (claim C10)\<close>

text \<open>
  Claim C10. A match call whose exclusion id is the empty string excludes nothing: the
  answer is the answer of the call with no exclusion id, the total of a non-empty store
  is the number of all stored records, and the matches are ranked from the entries of
  all stored records, those owned by the empty string included. Both endpoints test
  the id for truthiness, and the empty string is false.
\<close>

theorem empty_exclusion_id_excludes_nothing:
  "match_candidates encode cosine (request\<lparr>mr_exclude_user_id := Some ''''\<rparr>) stored
     = match_candidates encode cosine (request\<lparr>mr_exclude_user_id := None\<rparr>) stored
   \<and> cr_total_candidates
       (match_candidates encode cosine (request\<lparr>mr_exclude_user_id := Some ''''\<rparr>) stored)
     = (if stored = [] then None else Some (length stored))
   \<and> cr_matches
       (match_candidates encode cosine (request\<lparr>mr_exclude_user_id := Some ''''\<rparr>) stored)
     = py_slice_to
         (py_sort_reverse cm_similarity_score
            (candidate_entries cosine (encode (mr_job_description request)) stored))
         (mr_top_k request)
   \<and> match_jobs encode cosine (jrequest\<lparr>jmr_exclude_employer_id := Some ''''\<rparr>) jstored
     = match_jobs encode cosine (jrequest\<lparr>jmr_exclude_employer_id := None\<rparr>) jstored
   \<and> jr_total_jobs
       (match_jobs encode cosine (jrequest\<lparr>jmr_exclude_employer_id := Some ''''\<rparr>) jstored)
     = (if jstored = [] then None else Some (length jstored))
   \<and> jr_matches
       (match_jobs encode cosine (jrequest\<lparr>jmr_exclude_employer_id := Some ''''\<rparr>) jstored)
     = py_slice_to
         (py_sort_reverse jm_similarity_score
            (job_entries cosine (encode (jmr_resume_text jrequest)) jstored))
         (jmr_top_k jrequest)"
  by (simp add: match_candidates_def match_jobs_def truthy_def Let_def
        py_sort_reverse_Nil py_slice_to_Nil)

text \<open>
  At a store of one resume owned by the empty string: the resume is counted and
  returned.
\<close>

theorem empty_exclusion_id_excludes_nothing_witness:
  "cr_total_candidates
     (match_candidates (\<lambda>t. [1]) (\<lambda>u v. 1)
        \<lparr>mr_job_description = ''dev'', mr_top_k = 5, mr_exclude_user_id = Some []\<rparr>
        [\<lparr>r_id = ''r1'', r_user_id = [], r_name = ''Ann'', r_email = [], r_skills = [],
          r_experience = [], r_education = [], r_raw_text = [],
          r_embedding = Some [1]\<rparr>]) = Some 1
   \<and> map cm_resume_id (cr_matches
     (match_candidates (\<lambda>t. [1]) (\<lambda>u v. 1)
        \<lparr>mr_job_description = ''dev'', mr_top_k = 5, mr_exclude_user_id = Some []\<rparr>
        [\<lparr>r_id = ''r1'', r_user_id = [], r_name = ''Ann'', r_email = [], r_skills = [],
          r_experience = [], r_education = [], r_raw_text = [],
          r_embedding = Some [1]\<rparr>])) = [''r1'']"
proof -
  note inst = empty_exclusion_id_excludes_nothing
    [of "\<lambda>t. [1]" "\<lambda>u v. 1"
        "\<lparr>mr_job_description = ''dev'', mr_top_k = 5, mr_exclude_user_id = None\<rparr>"
        "[\<lparr>r_id = ''r1'', r_user_id = [], r_name = ''Ann'', r_email = [], r_skills = [],
          r_experience = [], r_education = [], r_raw_text = [],
          r_embedding = Some [1]\<rparr>]"]
  from inst [THEN conjunct2, THEN conjunct1]
       inst [THEN conjunct2, THEN conjunct2, THEN conjunct1]
  show ?thesis
    by (simp add: py_slice_to_def py_sort_reverse_def)
qed

section \<open>Exclusion of an owner (claim C3)\<close>

text \<open>The exclusion of a non-empty owner id, endpoint by endpoint.\<close>

lemma excluded_owner_resumes:
  assumes "x \<noteq> []" and "mr_exclude_user_id request = Some x"
  shows
  "(\<forall>m \<in> set (cr_matches (match_candidates encode cosine request stored)).
      \<exists>r \<in> set stored. r_user_id r \<noteq> x \<and> cm_resume_id m = r_id r \<and> cm_name m = r_name r)
   \<and> (distinct (map r_id stored) \<longrightarrow>
        (\<forall>r \<in> set stored. r_user_id r = x \<longrightarrow>
           r_id r \<notin> cm_resume_id ` set (cr_matches (match_candidates encode cosine request stored))))
   \<and> cr_total_candidates (match_candidates encode cosine request stored)
       = (if stored = [] then None
          else Some (length (filter (\<lambda>r. r_user_id r \<noteq> x) stored)))"
proof -
  have origin: "\<exists>r \<in> set stored. r_user_id r \<noteq> x \<and> cm_resume_id m = r_id r \<and> cm_name m = r_name r"
    if "m \<in> set (cr_matches (match_candidates encode cosine request stored))" for m
  proof -
    from match_candidates_origin [OF that] obtain r e where
      "r \<in> set stored"
      "\<not> (truthy (mr_exclude_user_id request) \<and> mr_exclude_user_id request = Some (r_user_id r))"
      "m = \<lparr>cm_resume_id = r_id r, cm_name = r_name r, cm_skills = r_skills r,
            cm_similarity_score = cosine (encode (mr_job_description request)) e,
            cm_experience_snippet = snippet 200 (r_experience r)\<rparr>"
      by blast
    with assms show ?thesis
      by (auto simp: truthy_Some)
  qed
  have ids: "r_id r \<notin> cm_resume_id ` set (cr_matches (match_candidates encode cosine request stored))"
    if "distinct (map r_id stored)" "r \<in> set stored" "r_user_id r = x" for r
  proof
    assume "r_id r \<in> cm_resume_id ` set (cr_matches (match_candidates encode cosine request stored))"
    then obtain m where "m \<in> set (cr_matches (match_candidates encode cosine request stored))"
      and "r_id r = cm_resume_id m"
      by blast
    with origin obtain r' where "r' \<in> set stored" "r_user_id r' \<noteq> x" "r_id r = r_id r'"
      by metis
    with that show False
      using inj_on_ids [of r_id stored r r'] by blast
  qed
  have total: "cr_total_candidates (match_candidates encode cosine request stored)
       = (if stored = [] then None
          else Some (length (filter (\<lambda>r. r_user_id r \<noteq> x) stored)))"
  proof -
    have "filter (\<lambda>r. x \<noteq> r_user_id r) stored = filter (\<lambda>r. r_user_id r \<noteq> x) stored"
      by (rule filter_cong) auto
    with assms show ?thesis
      by (simp add: match_candidates_total truthy_Some)
  qed
  from origin ids total show ?thesis
    by blast
qed

lemma excluded_owner_jobs:
  assumes "x \<noteq> []" and "jmr_exclude_employer_id request = Some x"
  shows
  "(\<forall>m \<in> set (jr_matches (match_jobs encode cosine request stored)).
      \<exists>j \<in> set stored. j_employer_id j \<noteq> x \<and> jm_job_id m = j_id j \<and> jm_title m = j_title j)
   \<and> (distinct (map j_id stored) \<longrightarrow>
        (\<forall>j \<in> set stored. j_employer_id j = x \<longrightarrow>
           j_id j \<notin> jm_job_id ` set (jr_matches (match_jobs encode cosine request stored))))
   \<and> jr_total_jobs (match_jobs encode cosine request stored)
       = (if stored = [] then None
          else Some (length (filter (\<lambda>j. j_employer_id j \<noteq> x) stored)))"
proof -
  have origin: "\<exists>j \<in> set stored. j_employer_id j \<noteq> x \<and> jm_job_id m = j_id j \<and> jm_title m = j_title j"
    if "m \<in> set (jr_matches (match_jobs encode cosine request stored))" for m
  proof -
    from match_jobs_origin [OF that] obtain j e where
      "j \<in> set stored"
      "\<not> (truthy (jmr_exclude_employer_id request)
          \<and> jmr_exclude_employer_id request = Some (j_employer_id j))"
      "m = \<lparr>jm_job_id = j_id j, jm_title = j_title j, jm_company = j_company j,
            jm_location = j_location j,
            jm_similarity_score = cosine (encode (jmr_resume_text request)) e,
            jm_description_snippet = snippet 200 (j_description j),
            jm_requirements = py_slice_to (j_requirements j) 5,
            jm_salary_range = j_salary_range j\<rparr>"
      by blast
    with assms show ?thesis
      by (auto simp: truthy_Some)
  qed
  have ids: "j_id j \<notin> jm_job_id ` set (jr_matches (match_jobs encode cosine request stored))"
    if "distinct (map j_id stored)" "j \<in> set stored" "j_employer_id j = x" for j
  proof
    assume "j_id j \<in> jm_job_id ` set (jr_matches (match_jobs encode cosine request stored))"
    then obtain m where "m \<in> set (jr_matches (match_jobs encode cosine request stored))"
      and "j_id j = jm_job_id m"
      by blast
    with origin obtain j' where "j' \<in> set stored" "j_employer_id j' \<noteq> x" "j_id j = j_id j'"
      by metis
    with that show False
      using inj_on_ids [of j_id stored j j'] by blast
  qed
  have total: "jr_total_jobs (match_jobs encode cosine request stored)
       = (if stored = [] then None
          else Some (length (filter (\<lambda>j. j_employer_id j \<noteq> x) stored)))"
  proof -
    have "filter (\<lambda>j. x \<noteq> j_employer_id j) stored
          = filter (\<lambda>j. j_employer_id j \<noteq> x) stored"
      by (rule filter_cong) auto
    with assms show ?thesis
      by (simp add: match_jobs_total truthy_Some)
  qed
  from origin ids total show ?thesis
    by blast
qed

text \<open>
  Claim C3, as the code has it: for every match call whose exclusion id \<open>x\<close> is a
  non-empty string, every returned entry is the entry of a stored record whose owner
  differs from \<open>x\<close>; when the stored ids are distinct, no returned entry carries the id
  of a record owned by \<open>x\<close>; and the total, which a non-empty store returns, is the
  number of stored records whose owner differs from \<open>x\<close> (the filter runs before the
  count). An empty store returns no total.
\<close>

theorem nonempty_exclusion_id_excludes_owner:
  "(x \<noteq> [] \<and> mr_exclude_user_id request = Some x \<longrightarrow>
      (\<forall>m \<in> set (cr_matches (match_candidates encode cosine request stored)).
         \<exists>r \<in> set stored. r_user_id r \<noteq> x \<and> cm_resume_id m = r_id r
           \<and> cm_name m = r_name r)
      \<and> (distinct (map r_id stored) \<longrightarrow>
           (\<forall>r \<in> set stored. r_user_id r = x \<longrightarrow>
              r_id r \<notin> cm_resume_id
                 ` set (cr_matches (match_candidates encode cosine request stored))))
      \<and> cr_total_candidates (match_candidates encode cosine request stored)
          = (if stored = [] then None
             else Some (length (filter (\<lambda>r. r_user_id r \<noteq> x) stored))))
   \<and> (y \<noteq> [] \<and> jmr_exclude_employer_id jrequest = Some y \<longrightarrow>
      (\<forall>m \<in> set (jr_matches (match_jobs encode cosine jrequest jstored)).
         \<exists>j \<in> set jstored. j_employer_id j \<noteq> y \<and> jm_job_id m = j_id j
           \<and> jm_title m = j_title j)
      \<and> (distinct (map j_id jstored) \<longrightarrow>
           (\<forall>j \<in> set jstored. j_employer_id j = y \<longrightarrow>
              j_id j \<notin> jm_job_id
                 ` set (jr_matches (match_jobs encode cosine jrequest jstored))))
      \<and> jr_total_jobs (match_jobs encode cosine jrequest jstored)
          = (if jstored = [] then None
             else Some (length (filter (\<lambda>j. j_employer_id j \<noteq> y) jstored))))"
  (is "?resumes \<and> ?jobs")
proof -
  have ?resumes
    using excluded_owner_resumes [of x request encode cosine stored] by blast
  moreover have ?jobs
    using excluded_owner_jobs [of y jrequest encode cosine jstored] by blast
  ultimately show ?thesis
    by (rule conjI)
qed

text \<open>
  At a store of two resumes, owned by \<open>u1\<close> and \<open>u2\<close>, and the exclusion id \<open>u1\<close>:
  the total is one and the id of the first resume is not returned.
\<close>

theorem nonempty_exclusion_id_excludes_owner_witness:
  "''u1'' \<noteq> []
   \<and> mr_exclude_user_id
        \<lparr>mr_job_description = ''dev'', mr_top_k = 5, mr_exclude_user_id = Some ''u1''\<rparr>
       = Some ''u1''
   \<and> cr_total_candidates
       (match_candidates (\<lambda>t. [1]) (\<lambda>u v. 1)
          \<lparr>mr_job_description = ''dev'', mr_top_k = 5, mr_exclude_user_id = Some ''u1''\<rparr>
          [\<lparr>r_id = ''r1'', r_user_id = ''u1'', r_name = ''Ann'', r_email = [],
            r_skills = [], r_experience = [], r_education = [], r_raw_text = [],
            r_embedding = Some [1]\<rparr>,
           \<lparr>r_id = ''r2'', r_user_id = ''u2'', r_name = ''Bob'', r_email = [],
            r_skills = [], r_experience = [], r_education = [], r_raw_text = [],
            r_embedding = Some [1]\<rparr>]) = Some 1
   \<and> ''r1'' \<notin> cm_resume_id ` set (cr_matches
       (match_candidates (\<lambda>t. [1]) (\<lambda>u v. 1)
          \<lparr>mr_job_description = ''dev'', mr_top_k = 5, mr_exclude_user_id = Some ''u1''\<rparr>
          [\<lparr>r_id = ''r1'', r_user_id = ''u1'', r_name = ''Ann'', r_email = [],
            r_skills = [], r_experience = [], r_education = [], r_raw_text = [],
            r_embedding = Some [1]\<rparr>,
           \<lparr>r_id = ''r2'', r_user_id = ''u2'', r_name = ''Bob'', r_email = [],
            r_skills = [], r_experience = [], r_education = [], r_raw_text = [],
            r_embedding = Some [1]\<rparr>]))
   \<and> ''e1'' \<noteq> []
   \<and> jr_total_jobs
       (match_jobs (\<lambda>t. [1]) (\<lambda>u v. 1)
          \<lparr>jmr_resume_text = ''dev'', jmr_top_k = 5, jmr_exclude_employer_id = Some ''e1''\<rparr>
          [\<lparr>j_id = ''j1'', j_employer_id = ''e1'', j_title = ''Dev'', j_company = ''Acme'',
            j_description = [], j_requirements = [], j_location = ''Oslo'',
            j_salary_range = None, j_job_type = ''Full-time'', j_embedding = Some [1]\<rparr>])
       = Some 0"
proof -
  have h: "''u1'' \<noteq> [] \<and> mr_exclude_user_id
        \<lparr>mr_job_description = ''dev'', mr_top_k = 5, mr_exclude_user_id = Some ''u1''\<rparr>
       = Some ''u1''"
    by simp
  have hj: "''e1'' \<noteq> [] \<and> jmr_exclude_employer_id
        \<lparr>jmr_resume_text = ''dev'', jmr_top_k = 5, jmr_exclude_employer_id = Some ''e1''\<rparr>
       = Some ''e1''"
    by simp
  note inst = nonempty_exclusion_id_excludes_owner
    [of "''u1''"
       "\<lparr>mr_job_description = ''dev'', mr_top_k = 5, mr_exclude_user_id = Some ''u1''\<rparr>"
       "\<lambda>t. [1]" "\<lambda>u v. 1"
       "[\<lparr>r_id = ''r1'', r_user_id = ''u1'', r_name = ''Ann'', r_email = [],
            r_skills = [], r_experience = [], r_education = [], r_raw_text = [],
            r_embedding = Some [1]\<rparr>,
           \<lparr>r_id = ''r2'', r_user_id = ''u2'', r_name = ''Bob'', r_email = [],
            r_skills = [], r_experience = [], r_education = [], r_raw_text = [],
            r_embedding = Some [1]\<rparr>]"
       "''e1''"
       "\<lparr>jmr_resume_text = ''dev'', jmr_top_k = 5, jmr_exclude_employer_id = Some ''e1''\<rparr>"
       "[\<lparr>j_id = ''j1'', j_employer_id = ''e1'', j_title = ''Dev'', j_company = ''Acme'',
            j_description = [], j_requirements = [], j_location = ''Oslo'',
            j_salary_range = None, j_job_type = ''Full-time'', j_embedding = Some [1]\<rparr>]"]
  note ir = inst [THEN conjunct1, rule_format, OF h]
  note ij = inst [THEN conjunct2, rule_format, OF hj]
  from ir [THEN conjunct2, THEN conjunct1] ir [THEN conjunct2, THEN conjunct2]
       ij [THEN conjunct2, THEN conjunct2]
  show ?thesis
    by simp
qed

text \<open>
  The claim as stated, for every exclusion id that is not absent, fails at the empty
  string: the resume owned by the empty string is returned and counted.
\<close>

theorem exclusion_by_empty_id_counterexample:
  "map cm_resume_id (cr_matches
     (match_candidates (\<lambda>t. [1]) (\<lambda>u v. 1)
        \<lparr>mr_job_description = ''dev'', mr_top_k = 5, mr_exclude_user_id = Some ''''\<rparr>
        [\<lparr>r_id = ''r0'', r_user_id = '''', r_name = ''Ann'', r_email = [],
          r_skills = [], r_experience = [], r_education = [], r_raw_text = [],
          r_embedding = Some [1]\<rparr>,
         \<lparr>r_id = ''r2'', r_user_id = ''u2'', r_name = ''Bob'', r_email = [],
          r_skills = [], r_experience = [], r_education = [], r_raw_text = [],
          r_embedding = Some [1]\<rparr>])) = [''r0'', ''r2'']
   \<and> cr_total_candidates
     (match_candidates (\<lambda>t. [1]) (\<lambda>u v. 1)
        \<lparr>mr_job_description = ''dev'', mr_top_k = 5, mr_exclude_user_id = Some ''''\<rparr>
        [\<lparr>r_id = ''r0'', r_user_id = '''', r_name = ''Ann'', r_email = [],
          r_skills = [], r_experience = [], r_education = [], r_raw_text = [],
          r_embedding = Some [1]\<rparr>,
         \<lparr>r_id = ''r2'', r_user_id = ''u2'', r_name = ''Bob'', r_email = [],
          r_skills = [], r_experience = [], r_education = [], r_raw_text = [],
          r_embedding = Some [1]\<rparr>]) = Some 2"
  by (simp add: match_candidates_def truthy_def py_slice_to_def py_sort_reverse_def)

section \<open>Stores with nothing to rank (claim C2)\<close>

text \<open>
  Claim C2, as the code has it: a match call on an empty store returns an empty list of
  matches with the message of the endpoint and no total; a match call on a non-empty
  store in which no record has a non-empty embedding returns an empty list of matches
  and, as total, the number of records left after the exclusion.
\<close>

theorem no_embeddings_no_matches:
  "match_candidates encode cosine request []
     = \<lparr>cr_matches = [], cr_message = Some ''No resumes available'',
        cr_total_candidates = None\<rparr>
   \<and> (stored \<noteq> [] \<and> (\<forall>r \<in> set stored. \<not> truthy (r_embedding r)) \<longrightarrow>
        match_candidates encode cosine request stored
          = \<lparr>cr_matches = [], cr_message = None,
             cr_total_candidates =
               Some (length (filter (\<lambda>r. \<not> (truthy (mr_exclude_user_id request)
                          \<and> mr_exclude_user_id request = Some (r_user_id r))) stored))\<rparr>)
   \<and> match_jobs encode cosine jrequest []
     = \<lparr>jr_matches = [], jr_message = Some ''No jobs available'', jr_total_jobs = None\<rparr>
   \<and> (jstored \<noteq> [] \<and> (\<forall>j \<in> set jstored. \<not> truthy (j_embedding j)) \<longrightarrow>
        match_jobs encode cosine jrequest jstored
          = \<lparr>jr_matches = [], jr_message = None,
             jr_total_jobs =
               Some (length (filter (\<lambda>j. \<not> (truthy (jmr_exclude_employer_id jrequest)
                          \<and> jmr_exclude_employer_id jrequest = Some (j_employer_id j)))
                       jstored))\<rparr>)"
proof -
  have empty_r: "match_candidates encode cosine request []
     = \<lparr>cr_matches = [], cr_message = Some ''No resumes available'',
        cr_total_candidates = None\<rparr>"
    by (simp add: match_candidates_def)
  have empty_j: "match_jobs encode cosine jrequest []
     = \<lparr>jr_matches = [], jr_message = Some ''No jobs available'', jr_total_jobs = None\<rparr>"
    by (simp add: match_jobs_def)
  have bare_r: "match_candidates encode cosine request stored
          = \<lparr>cr_matches = [], cr_message = None,
             cr_total_candidates =
               Some (length (filter (\<lambda>r. \<not> (truthy (mr_exclude_user_id request)
                          \<and> mr_exclude_user_id request = Some (r_user_id r))) stored))\<rparr>"
    if "stored \<noteq> []" and "\<forall>r \<in> set stored. \<not> truthy (r_embedding r)"
  proof -
    let ?kept = "filter (\<lambda>r. \<not> (truthy (mr_exclude_user_id request)
                          \<and> mr_exclude_user_id request = Some (r_user_id r))) stored"
    from that(2) have "\<forall>r \<in> set ?kept. \<not> truthy (r_embedding r)"
      by simp
    then have "candidate_entries cosine (encode (mr_job_description request)) ?kept = []"
      by (rule candidate_entries_no_embedding)
    with that(1) show ?thesis
      by (simp add: match_candidates_def Let_def kept_resumes py_sort_reverse_Nil
            py_slice_to_Nil)
  qed
  have bare_j: "match_jobs encode cosine jrequest jstored
          = \<lparr>jr_matches = [], jr_message = None,
             jr_total_jobs =
               Some (length (filter (\<lambda>j. \<not> (truthy (jmr_exclude_employer_id jrequest)
                          \<and> jmr_exclude_employer_id jrequest = Some (j_employer_id j)))
                       jstored))\<rparr>"
    if "jstored \<noteq> []" and "\<forall>j \<in> set jstored. \<not> truthy (j_embedding j)"
  proof -
    let ?kept = "filter (\<lambda>j. \<not> (truthy (jmr_exclude_employer_id jrequest)
                          \<and> jmr_exclude_employer_id jrequest = Some (j_employer_id j)))
                       jstored"
    from that(2) have "\<forall>j \<in> set ?kept. \<not> truthy (j_embedding j)"
      by simp
    then have "job_entries cosine (encode (jmr_resume_text jrequest)) ?kept = []"
      by (rule job_entries_no_embedding)
    with that(1) show ?thesis
      by (simp add: match_jobs_def Let_def kept_jobs py_sort_reverse_Nil py_slice_to_Nil)
  qed
  from empty_r empty_j bare_r bare_j show ?thesis
    by blast
qed

text \<open>
  At a store of two resumes, one with no embedding and one with an empty one, and the
  exclusion of the first owner: no match, a total of one.
\<close>

theorem no_embeddings_no_matches_witness:
  "[\<lparr>r_id = ''r1'', r_user_id = ''u1'', r_name = ''Ann'', r_email = [], r_skills = [],
      r_experience = [], r_education = [], r_raw_text = [], r_embedding = None\<rparr>,
    \<lparr>r_id = ''r2'', r_user_id = ''u2'', r_name = ''Bob'', r_email = [], r_skills = [],
      r_experience = [], r_education = [], r_raw_text = [], r_embedding = Some []\<rparr>] \<noteq> []
   \<and> list_all (\<lambda>r. \<not> truthy (r_embedding r))
        [\<lparr>r_id = ''r1'', r_user_id = ''u1'', r_name = ''Ann'', r_email = [], r_skills = [],
           r_experience = [], r_education = [], r_raw_text = [], r_embedding = None\<rparr>,
         \<lparr>r_id = ''r2'', r_user_id = ''u2'', r_name = ''Bob'', r_email = [], r_skills = [],
           r_experience = [], r_education = [], r_raw_text = [], r_embedding = Some []\<rparr>]
   \<and> match_candidates (\<lambda>t. [1]) (\<lambda>u v. 1)
        \<lparr>mr_job_description = ''dev'', mr_top_k = 5, mr_exclude_user_id = Some ''u1''\<rparr>
        [\<lparr>r_id = ''r1'', r_user_id = ''u1'', r_name = ''Ann'', r_email = [], r_skills = [],
           r_experience = [], r_education = [], r_raw_text = [], r_embedding = None\<rparr>,
         \<lparr>r_id = ''r2'', r_user_id = ''u2'', r_name = ''Bob'', r_email = [], r_skills = [],
           r_experience = [], r_education = [], r_raw_text = [], r_embedding = Some []\<rparr>]
      = \<lparr>cr_matches = [], cr_message = None, cr_total_candidates = Some 1\<rparr>"
proof -
  let ?store =
    "[\<lparr>r_id = ''r1'', r_user_id = ''u1'', r_name = ''Ann'', r_email = [], r_skills = [],
       r_experience = [], r_education = [], r_raw_text = [], r_embedding = None\<rparr>,
      \<lparr>r_id = ''r2'', r_user_id = ''u2'', r_name = ''Bob'', r_email = [], r_skills = [],
       r_experience = [], r_education = [], r_raw_text = [], r_embedding = Some []\<rparr>]"
  have h: "?store \<noteq> [] \<and> (\<forall>r \<in> set ?store. \<not> truthy (r_embedding r))"
    by (simp add: truthy_def)
  note inst = no_embeddings_no_matches
    [of "\<lambda>t. [1]" "\<lambda>u v. 1"
        "\<lparr>mr_job_description = ''dev'', mr_top_k = 5, mr_exclude_user_id = Some ''u1''\<rparr>"
        ?store, THEN conjunct2, THEN conjunct1, rule_format, OF h]
  from h inst show ?thesis
    by (simp add: truthy_def)
qed

text \<open>
  The claim as stated gives the empty store the answer with a total of zero; the code
  answers with a message and no total.
\<close>

theorem empty_store_has_no_total_counterexample:
  "cr_total_candidates
     (match_candidates (\<lambda>t. []) (\<lambda>u v. 0)
        \<lparr>mr_job_description = ''backend engineer'', mr_top_k = 5,
         mr_exclude_user_id = None\<rparr> []) = None
   \<and> match_candidates (\<lambda>t. []) (\<lambda>u v. 0)
        \<lparr>mr_job_description = ''backend engineer'', mr_top_k = 5,
         mr_exclude_user_id = None\<rparr> []
      \<noteq> \<lparr>cr_matches = [], cr_message = None, cr_total_candidates = Some 0\<rparr>"
  by (simp add: match_candidates_def)

section \<open>Records without an embedding (claim C5)\<close>

text \<open>The total of a match call does not depend on the embeddings of the store.\<close>

lemma candidates_total_ignores_embeddings:
  "cr_total_candidates
     (match_candidates encode cosine request (map (\<lambda>r'. r'\<lparr>r_embedding := emb r'\<rparr>) stored))
   = cr_total_candidates (match_candidates encode cosine request stored)"
  by (simp add: match_candidates_total filter_map comp_def)

lemma jobs_total_ignores_embeddings:
  "jr_total_jobs
     (match_jobs encode cosine request (map (\<lambda>j'. j'\<lparr>j_embedding := emb j'\<rparr>) stored))
   = jr_total_jobs (match_jobs encode cosine request stored)"
  by (simp add: match_jobs_total filter_map comp_def)

text \<open>A record without an embedding, endpoint by endpoint.\<close>

lemma unembedded_resume:
  assumes "r \<in> set stored" and "r_embedding r = None"
  shows
  "(\<forall>m \<in> set (cr_matches (match_candidates encode cosine request stored)).
      \<exists>r' \<in> set stored. r_embedding r' \<noteq> None \<and> r' \<noteq> r
        \<and> cm_resume_id m = r_id r' \<and> cm_name m = r_name r')
   \<and> (distinct (map r_id stored) \<longrightarrow>
        r_id r \<notin> cm_resume_id ` set (cr_matches (match_candidates encode cosine request stored)))
   \<and> (\<not> (truthy (mr_exclude_user_id request)
           \<and> mr_exclude_user_id request = Some (r_user_id r)) \<longrightarrow>
        r \<in> set (filter (\<lambda>r. \<not> (truthy (mr_exclude_user_id request)
                          \<and> mr_exclude_user_id request = Some (r_user_id r))) stored)
        \<and> cr_total_candidates (match_candidates encode cosine request stored)
            = Some (length (filter (\<lambda>r. \<not> (truthy (mr_exclude_user_id request)
                          \<and> mr_exclude_user_id request = Some (r_user_id r))) stored)))"
proof -
  have origin: "\<exists>r' \<in> set stored. r_embedding r' \<noteq> None \<and> r' \<noteq> r
        \<and> cm_resume_id m = r_id r' \<and> cm_name m = r_name r'"
    if "m \<in> set (cr_matches (match_candidates encode cosine request stored))" for m
  proof -
    from match_candidates_origin [OF that] obtain r' e where
      "r' \<in> set stored" "r_embedding r' = Some e"
      "m = \<lparr>cm_resume_id = r_id r', cm_name = r_name r', cm_skills = r_skills r',
            cm_similarity_score = cosine (encode (mr_job_description request)) e,
            cm_experience_snippet = snippet 200 (r_experience r')\<rparr>"
      by blast
    with assms(2) show ?thesis
      by auto
  qed
  have ids: "r_id r \<notin> cm_resume_id ` set (cr_matches (match_candidates encode cosine request stored))"
    if "distinct (map r_id stored)"
  proof
    assume "r_id r \<in> cm_resume_id ` set (cr_matches (match_candidates encode cosine request stored))"
    then obtain m where "m \<in> set (cr_matches (match_candidates encode cosine request stored))"
      and "r_id r = cm_resume_id m"
      by blast
    with origin obtain r' where "r' \<in> set stored" "r' \<noteq> r" "r_id r = r_id r'"
      by metis
    with that assms(1) show False
      using inj_on_ids [of r_id stored r r'] by blast
  qed
  have counted: "r \<in> set (filter (\<lambda>r. \<not> (truthy (mr_exclude_user_id request)
                          \<and> mr_exclude_user_id request = Some (r_user_id r))) stored)
        \<and> cr_total_candidates (match_candidates encode cosine request stored)
            = Some (length (filter (\<lambda>r. \<not> (truthy (mr_exclude_user_id request)
                          \<and> mr_exclude_user_id request = Some (r_user_id r))) stored))"
    if "\<not> (truthy (mr_exclude_user_id request)
           \<and> mr_exclude_user_id request = Some (r_user_id r))"
  proof -
    from assms(1) have "stored \<noteq> []"
      by auto
    with that assms(1) show ?thesis
      by (simp add: match_candidates_total)
  qed
  from origin ids counted show ?thesis
    by blast
qed

lemma unembedded_job:
  assumes "j \<in> set stored" and "j_embedding j = None"
  shows
  "(\<forall>m \<in> set (jr_matches (match_jobs encode cosine request stored)).
      \<exists>j' \<in> set stored. j_embedding j' \<noteq> None \<and> j' \<noteq> j
        \<and> jm_job_id m = j_id j' \<and> jm_title m = j_title j')
   \<and> (distinct (map j_id stored) \<longrightarrow>
        j_id j \<notin> jm_job_id ` set (jr_matches (match_jobs encode cosine request stored)))
   \<and> (\<not> (truthy (jmr_exclude_employer_id request)
           \<and> jmr_exclude_employer_id request = Some (j_employer_id j)) \<longrightarrow>
        j \<in> set (filter (\<lambda>j. \<not> (truthy (jmr_exclude_employer_id request)
                          \<and> jmr_exclude_employer_id request = Some (j_employer_id j)))
                    stored)
        \<and> jr_total_jobs (match_jobs encode cosine request stored)
            = Some (length (filter (\<lambda>j. \<not> (truthy (jmr_exclude_employer_id request)
                          \<and> jmr_exclude_employer_id request = Some (j_employer_id j)))
                       stored)))"
proof -
  have origin: "\<exists>j' \<in> set stored. j_embedding j' \<noteq> None \<and> j' \<noteq> j
        \<and> jm_job_id m = j_id j' \<and> jm_title m = j_title j'"
    if "m \<in> set (jr_matches (match_jobs encode cosine request stored))" for m
  proof -
    from match_jobs_origin [OF that] obtain j' e where
      "j' \<in> set stored" "j_embedding j' = Some e"
      "m = \<lparr>jm_job_id = j_id j', jm_title = j_title j', jm_company = j_company j',
            jm_location = j_location j',
            jm_similarity_score = cosine (encode (jmr_resume_text request)) e,
            jm_description_snippet = snippet 200 (j_description j'),
            jm_requirements = py_slice_to (j_requirements j') 5,
            jm_salary_range = j_salary_range j'\<rparr>"
      by blast
    with assms(2) show ?thesis
      by auto
  qed
  have ids: "j_id j \<notin> jm_job_id ` set (jr_matches (match_jobs encode cosine request stored))"
    if "distinct (map j_id stored)"
  proof
    assume "j_id j \<in> jm_job_id ` set (jr_matches (match_jobs encode cosine request stored))"
    then obtain m where "m \<in> set (jr_matches (match_jobs encode cosine request stored))"
      and "j_id j = jm_job_id m"
      by blast
    with origin obtain j' where "j' \<in> set stored" "j' \<noteq> j" "j_id j = j_id j'"
      by metis
    with that assms(1) show False
      using inj_on_ids [of j_id stored j j'] by blast
  qed
  have counted: "j \<in> set (filter (\<lambda>j. \<not> (truthy (jmr_exclude_employer_id request)
                          \<and> jmr_exclude_employer_id request = Some (j_employer_id j)))
                    stored)
        \<and> jr_total_jobs (match_jobs encode cosine request stored)
            = Some (length (filter (\<lambda>j. \<not> (truthy (jmr_exclude_employer_id request)
                          \<and> jmr_exclude_employer_id request = Some (j_employer_id j)))
                       stored))"
    if "\<not> (truthy (jmr_exclude_employer_id request)
           \<and> jmr_exclude_employer_id request = Some (j_employer_id j))"
  proof -
    from assms(1) have "stored \<noteq> []"
      by auto
    with that assms(1) show ?thesis
      by (simp add: match_jobs_total)
  qed
  from origin ids counted show ?thesis
    by blast
qed

text \<open>
  Claim C5. Let a resume \<open>r\<close> (a job \<open>j\<close>) of the store have no embedding. Then every
  returned entry is the entry of another stored record, one with an embedding, and with
  distinct stored ids the id of \<open>r\<close> (of \<open>j\<close>) is not returned. The record is still
  counted: the total of the match call is the number of records the owner filter keeps,
  with or without an embedding, \<open>r\<close> among them unless its owner is the excluded one,
  and the total does not change when the embeddings of the store are replaced by any
  others. In the insights, \<open>total_resumes\<close> and \<open>total_jobs\<close> are the number of stored
  records and the counts of the distribution (\<open>experience_levels\<close>, \<open>job_types\<close>) add
  up to it.
\<close>

theorem record_without_embedding_unranked_but_counted:
  "((r \<in> set stored \<and> r_embedding r = None \<longrightarrow>
      (\<forall>m \<in> set (cr_matches (match_candidates encode cosine request stored)).
         \<exists>r' \<in> set stored. r_embedding r' \<noteq> None \<and> r' \<noteq> r
           \<and> cm_resume_id m = r_id r' \<and> cm_name m = r_name r')
      \<and> (distinct (map r_id stored) \<longrightarrow>
           r_id r \<notin> cm_resume_id
              ` set (cr_matches (match_candidates encode cosine request stored)))
      \<and> (\<not> (truthy (mr_exclude_user_id request)
              \<and> mr_exclude_user_id request = Some (r_user_id r)) \<longrightarrow>
           r \<in> set (filter (\<lambda>r. \<not> (truthy (mr_exclude_user_id request)
                          \<and> mr_exclude_user_id request = Some (r_user_id r))) stored)
           \<and> cr_total_candidates (match_candidates encode cosine request stored)
               = Some (length (filter (\<lambda>r. \<not> (truthy (mr_exclude_user_id request)
                          \<and> mr_exclude_user_id request = Some (r_user_id r))) stored))))
    \<and> cr_total_candidates
         (match_candidates encode cosine request
            (map (\<lambda>r'. r'\<lparr>r_embedding := emb r'\<rparr>) stored))
       = cr_total_candidates (match_candidates encode cosine request stored)
    \<and> total_resumes (get_resume_insights list_of_set stored) = length stored
    \<and> sum_list (map snd (experience_levels (get_resume_insights list_of_set stored)))
       = length stored)
   \<and> ((j \<in> set jstored \<and> j_embedding j = None \<longrightarrow>
      (\<forall>m \<in> set (jr_matches (match_jobs encode cosine jrequest jstored)).
         \<exists>j' \<in> set jstored. j_embedding j' \<noteq> None \<and> j' \<noteq> j
           \<and> jm_job_id m = j_id j' \<and> jm_title m = j_title j')
      \<and> (distinct (map j_id jstored) \<longrightarrow>
           j_id j \<notin> jm_job_id
              ` set (jr_matches (match_jobs encode cosine jrequest jstored)))
      \<and> (\<not> (truthy (jmr_exclude_employer_id jrequest)
              \<and> jmr_exclude_employer_id jrequest = Some (j_employer_id j)) \<longrightarrow>
           j \<in> set (filter (\<lambda>j. \<not> (truthy (jmr_exclude_employer_id jrequest)
                          \<and> jmr_exclude_employer_id jrequest = Some (j_employer_id j)))
                       jstored)
           \<and> jr_total_jobs (match_jobs encode cosine jrequest jstored)
               = Some (length (filter (\<lambda>j. \<not> (truthy (jmr_exclude_employer_id jrequest)
                          \<and> jmr_exclude_employer_id jrequest = Some (j_employer_id j)))
                          jstored))))
    \<and> jr_total_jobs
         (match_jobs encode cosine jrequest
            (map (\<lambda>j'. j'\<lparr>j_embedding := jemb j'\<rparr>) jstored))
       = jr_total_jobs (match_jobs encode cosine jrequest jstored)
    \<and> total_jobs (get_job_insights list_of_set jstored) = length jstored
    \<and> sum_list (map snd (job_types (get_job_insights list_of_set jstored)))
       = length jstored)"
  (is "(?resume \<and> ?rtotal \<and> ?rinsights) \<and> (?job \<and> ?jtotal \<and> ?jinsights)")
proof -
  have ?resume
    using unembedded_resume [of r stored encode cosine request] by blast
  moreover have ?rtotal
    by (rule candidates_total_ignores_embeddings)
  moreover have ?rinsights
    by (rule resume_insights_totals)
  moreover have ?job
    using unembedded_job [of j jstored encode cosine jrequest] by blast
  moreover have ?jtotal
    by (rule jobs_total_ignores_embeddings)
  moreover have ?jinsights
    by (rule job_insights_totals)
  ultimately show ?thesis
    by blast
qed

text \<open>
  At a store of two resumes, the first without an embedding, and a store of one job
  without an embedding: the first resume is not returned, both resumes are counted,
  and so is the job.
\<close>

theorem record_without_embedding_unranked_but_counted_witness:
  "r_embedding
     \<lparr>r_id = ''r1'', r_user_id = ''u1'', r_name = ''Ann'', r_email = [], r_skills = [],
      r_experience = [], r_education = [], r_raw_text = [], r_embedding = None\<rparr> = None
   \<and> ''r1'' \<notin> cm_resume_id ` set (cr_matches
       (match_candidates (\<lambda>t. [1]) (\<lambda>u v. 1)
          \<lparr>mr_job_description = ''dev'', mr_top_k = 5, mr_exclude_user_id = None\<rparr>
          [\<lparr>r_id = ''r1'', r_user_id = ''u1'', r_name = ''Ann'', r_email = [],
            r_skills = [], r_experience = [], r_education = [], r_raw_text = [],
            r_embedding = None\<rparr>,
           \<lparr>r_id = ''r2'', r_user_id = ''u2'', r_name = ''Bob'', r_email = [],
            r_skills = [], r_experience = [], r_education = [], r_raw_text = [],
            r_embedding = Some [1]\<rparr>]))
   \<and> cr_total_candidates
       (match_candidates (\<lambda>t. [1]) (\<lambda>u v. 1)
          \<lparr>mr_job_description = ''dev'', mr_top_k = 5, mr_exclude_user_id = None\<rparr>
          [\<lparr>r_id = ''r1'', r_user_id = ''u1'', r_name = ''Ann'', r_email = [],
            r_skills = [], r_experience = [], r_education = [], r_raw_text = [],
            r_embedding = None\<rparr>,
           \<lparr>r_id = ''r2'', r_user_id = ''u2'', r_name = ''Bob'', r_email = [],
            r_skills = [], r_experience = [], r_education = [], r_raw_text = [],
            r_embedding = Some [1]\<rparr>]) = Some 2
   \<and> total_resumes
       (get_resume_insights (\<lambda>xs. xs)
          [\<lparr>r_id = ''r1'', r_user_id = ''u1'', r_name = ''Ann'', r_email = [],
            r_skills = [], r_experience = [], r_education = [], r_raw_text = [],
            r_embedding = None\<rparr>,
           \<lparr>r_id = ''r2'', r_user_id = ''u2'', r_name = ''Bob'', r_email = [],
            r_skills = [], r_experience = [], r_education = [], r_raw_text = [],
            r_embedding = Some [1]\<rparr>]) = 2
   \<and> jr_total_jobs
       (match_jobs (\<lambda>t. [1]) (\<lambda>u v. 1)
          \<lparr>jmr_resume_text = ''dev'', jmr_top_k = 5, jmr_exclude_employer_id = None\<rparr>
          [\<lparr>j_id = ''j1'', j_employer_id = ''e1'', j_title = ''Dev'', j_company = ''Acme'',
            j_description = [], j_requirements = [], j_location = ''Oslo'',
            j_salary_range = None, j_job_type = ''Full-time'', j_embedding = None\<rparr>])
       = Some 1"
proof -
  let ?r1 = "\<lparr>r_id = ''r1'', r_user_id = ''u1'', r_name = ''Ann'', r_email = [],
            r_skills = [], r_experience = [], r_education = [], r_raw_text = [],
            r_embedding = None\<rparr>"
  let ?r2 = "\<lparr>r_id = ''r2'', r_user_id = ''u2'', r_name = ''Bob'', r_email = [],
            r_skills = [], r_experience = [], r_education = [], r_raw_text = [],
            r_embedding = Some [1]\<rparr>"
  let ?j1 = "\<lparr>j_id = ''j1'', j_employer_id = ''e1'', j_title = ''Dev'', j_company = ''Acme'',
            j_description = [], j_requirements = [], j_location = ''Oslo'',
            j_salary_range = None, j_job_type = ''Full-time'', j_embedding = None\<rparr>"
  have h2: "r_embedding ?r1 = None"
    by simp
  have hr: "?r1 \<in> set [?r1, ?r2] \<and> r_embedding ?r1 = None"
    and hj: "?j1 \<in> set [?j1] \<and> j_embedding ?j1 = None"
    by simp_all
  note inst = record_without_embedding_unranked_but_counted
    [of ?r1 "[?r1, ?r2]" "\<lambda>t. [1]" "\<lambda>u v. 1"
       "\<lparr>mr_job_description = ''dev'', mr_top_k = 5, mr_exclude_user_id = None\<rparr>"
       "\<lambda>r. None" "\<lambda>xs. xs" ?j1 "[?j1]"
       "\<lparr>jmr_resume_text = ''dev'', jmr_top_k = 5, jmr_exclude_employer_id = None\<rparr>"
       "\<lambda>j. None"]
  note ir = inst [THEN conjunct1, THEN conjunct1, rule_format, OF hr]
  note ij = inst [THEN conjunct2, THEN conjunct1, rule_format, OF hj]
  have a: "''r1'' \<notin> cm_resume_id ` set (cr_matches
       (match_candidates (\<lambda>t. [1]) (\<lambda>u v. 1)
          \<lparr>mr_job_description = ''dev'', mr_top_k = 5, mr_exclude_user_id = None\<rparr>
          [?r1, ?r2]))"
    using ir [THEN conjunct2, THEN conjunct1] by simp
  have b: "cr_total_candidates
       (match_candidates (\<lambda>t. [1]) (\<lambda>u v. 1)
          \<lparr>mr_job_description = ''dev'', mr_top_k = 5, mr_exclude_user_id = None\<rparr>
          [?r1, ?r2]) = Some 2"
    using ir [THEN conjunct2, THEN conjunct2] by (simp add: truthy_def)
  have c: "total_resumes (get_resume_insights (\<lambda>xs. xs) [?r1, ?r2]) = 2"
    using inst [THEN conjunct1, THEN conjunct2, THEN conjunct2, THEN conjunct1]
    by simp
  have d: "jr_total_jobs
       (match_jobs (\<lambda>t. [1]) (\<lambda>u v. 1)
          \<lparr>jmr_resume_text = ''dev'', jmr_top_k = 5, jmr_exclude_employer_id = None\<rparr>
          [?j1]) = Some 1"
    using ij [THEN conjunct2, THEN conjunct2] by (simp add: truthy_def)
  from h2 a b c d show ?thesis
    by blast
qed

section \<open>Non-positive \<open>top_k\<close> (claim C1)\<close>

text \<open>With \<open>top_k = 0\<close> both endpoints return no match.\<close>

lemma top_k_zero_returns_no_match:
  "cr_matches (match_candidates encode cosine (request\<lparr>mr_top_k := 0\<rparr>) stored) = []
   \<and> jr_matches (match_jobs encode cosine (jrequest\<lparr>jmr_top_k := 0\<rparr>) jstored) = []"
  by (simp add: match_candidates_matches match_jobs_matches py_slice_to_zero)

text \<open>
  Claim C1 says that every \<open>top_k \<le> 0\<close> gives an empty list. The endpoints truncate
  with the slice \<open>matches[:top_k]\<close>, which for a negative \<open>top_k\<close> drops the last
  \<open>-top_k\<close> entries instead of all of them: at \<open>top_k = -1\<close> and two stored records
  with embeddings, each endpoint returns the first entry of the ranking.
\<close>

theorem negative_top_k_keeps_matches:
  "map cm_resume_id (cr_matches
     (match_candidates (\<lambda>t. [1]) (\<lambda>u v. 1)
        \<lparr>mr_job_description = ''dev'', mr_top_k = - 1, mr_exclude_user_id = None\<rparr>
        [\<lparr>r_id = ''r1'', r_user_id = ''u1'', r_name = ''Ann'', r_email = [],
          r_skills = [], r_experience = [], r_education = [], r_raw_text = [],
          r_embedding = Some [1]\<rparr>,
         \<lparr>r_id = ''r2'', r_user_id = ''u2'', r_name = ''Bob'', r_email = [],
          r_skills = [], r_experience = [], r_education = [], r_raw_text = [],
          r_embedding = Some [1]\<rparr>])) = [''r1'']
   \<and> map jm_job_id (jr_matches
     (match_jobs (\<lambda>t. [1]) (\<lambda>u v. 1)
        \<lparr>jmr_resume_text = ''dev'', jmr_top_k = - 1, jmr_exclude_employer_id = None\<rparr>
        [\<lparr>j_id = ''j1'', j_employer_id = ''e1'', j_title = ''Dev'', j_company = ''Acme'',
          j_description = [], j_requirements = [], j_location = ''Oslo'',
          j_salary_range = None, j_job_type = ''Full-time'', j_embedding = Some [1]\<rparr>,
         \<lparr>j_id = ''j2'', j_employer_id = ''e2'', j_title = ''Ops'', j_company = ''Acme'',
          j_description = [], j_requirements = [], j_location = ''Oslo'',
          j_salary_range = None, j_job_type = ''Full-time'', j_embedding = Some [1]\<rparr>]))
     = [''j1'']"
  by (simp add: match_candidates_def match_jobs_def truthy_def py_slice_to_def
        py_sort_reverse_def)

section \<open>The experience-level distribution (claim C9)\<close>

text \<open>Every resume falls into one of the three buckets.\<close>

lemma experience_bucket_cases:
  "experience_bucket r = ''Senior'' \<or> experience_bucket r = ''Mid''
   \<or> experience_bucket r = ''Entry''"
  by (simp add: experience_bucket_def experience_rules_def)

text \<open>The loop adds to each counter the number of resumes the rule list sends to it.\<close>

lemma experience_loop_counts:
  "experience_loop [(''Entry'', a), (''Mid'', b), (''Senior'', c)] rs
   = [(''Entry'', a + length (filter (\<lambda>r. experience_bucket r = ''Entry'') rs)),
      (''Mid'', b + length (filter (\<lambda>r. experience_bucket r = ''Mid'') rs)),
      (''Senior'', c + length (filter (\<lambda>r. experience_bucket r = ''Senior'') rs))]"
proof (induction rs arbitrary: a b c)
  case Nil
  show ?case
    by simp
next
  case (Cons r rs)
  show ?case
    by (simp add: Cons.IH experience_bucket_def experience_rules_def)
qed

text \<open>
  Claim C9, as the code has it: the counts of \<open>experience_levels\<close> add up to the number
  of stored resumes; for a non-empty store the dictionary has the three keys
  \<open>Entry\<close>, \<open>Mid\<close>, \<open>Senior\<close>, a zero count included, and each count is the number
  of resumes whose first matching rule, read top-down, is that bucket; every resume has
  exactly one such bucket, one of the three. For the empty store the dictionary is
  empty.
\<close>

theorem experience_levels_distribution:
  "sum_list (map snd (experience_levels (get_resume_insights list_of_set stored)))
     = length stored
   \<and> (stored \<noteq> [] \<longrightarrow>
        experience_levels (get_resume_insights list_of_set stored)
          = [(''Entry'', length (filter (\<lambda>r. experience_bucket r = ''Entry'') stored)),
             (''Mid'', length (filter (\<lambda>r. experience_bucket r = ''Mid'') stored)),
             (''Senior'', length (filter (\<lambda>r. experience_bucket r = ''Senior'') stored))])
   \<and> experience_levels (get_resume_insights list_of_set []) = []
   \<and> (experience_bucket r = ''Senior'' \<or> experience_bucket r = ''Mid''
        \<or> experience_bucket r = ''Entry'')"
proof -
  have "experience_levels (get_resume_insights list_of_set stored)
          = [(''Entry'', length (filter (\<lambda>r. experience_bucket r = ''Entry'') stored)),
             (''Mid'', length (filter (\<lambda>r. experience_bucket r = ''Mid'') stored)),
             (''Senior'', length (filter (\<lambda>r. experience_bucket r = ''Senior'') stored))]"
    if "stored \<noteq> []"
    using that experience_loop_counts [of 0 0 0 stored]
    by (simp add: get_resume_insights_def Let_def)
  moreover have "experience_levels (get_resume_insights list_of_set []) = []"
    by (simp add: get_resume_insights_def)
  moreover note resume_insights_totals [of list_of_set stored, THEN conjunct2]
    experience_bucket_cases [of r]
  ultimately show ?thesis
    by blast
qed

text \<open>
  At a store of one resume of a lead developer: one senior, and the two empty buckets are
  in the dictionary.
\<close>

theorem experience_levels_distribution_witness:
  "[\<lparr>r_id = ''r1'', r_user_id = ''u1'', r_name = ''Ann'', r_email = [], r_skills = [],
      r_experience = ''Lead developer, 10 years'', r_education = [], r_raw_text = [],
      r_embedding = None\<rparr>] \<noteq> []
   \<and> experience_levels
       (get_resume_insights (\<lambda>xs. xs)
          [\<lparr>r_id = ''r1'', r_user_id = ''u1'', r_name = ''Ann'', r_email = [],
            r_skills = [], r_experience = ''Lead developer, 10 years'', r_education = [],
            r_raw_text = [], r_embedding = None\<rparr>])
     = [(''Entry'', 0), (''Mid'', 0), (''Senior'', 1)]"
proof -
  let ?store = "[\<lparr>r_id = ''r1'', r_user_id = ''u1'', r_name = ''Ann'', r_email = [],
            r_skills = [], r_experience = ''Lead developer, 10 years'', r_education = [],
            r_raw_text = [], r_embedding = None\<rparr>]"
  have h: "?store \<noteq> []"
    by simp
  have bucket: "experience_bucket
          \<lparr>r_id = ''r1'', r_user_id = ''u1'', r_name = ''Ann'', r_email = [],
            r_skills = [], r_experience = ''Lead developer, 10 years'', r_education = [],
            r_raw_text = [], r_embedding = None\<rparr> = ''Senior''"
    by code_simp
  note inst = experience_levels_distribution
    [of "\<lambda>xs. xs" ?store, THEN conjunct2, THEN conjunct1, rule_format, OF h]
  from h inst bucket show ?thesis
    by simp
qed

text \<open>
  The claim as stated, for every collection, fails at the empty store: its dictionary
  has no bucket at all.
\<close>

theorem empty_store_has_no_buckets_counterexample:
  "experience_levels (get_resume_insights (\<lambda>xs. xs) []) = []
   \<and> ''Entry'' \<notin> fst ` set (experience_levels (get_resume_insights (\<lambda>xs. xs) []))"
  by (simp add: get_resume_insights_def)

section \<open>A primary keyword without a secondary one (claim C6)\<close>

text \<open>
  In both parsers the first rule has two inner tests and no inner \<open>else\<close>: a query
  that holds a keyword of the rule and none of the inner keywords leaves the whole
  chain, later rules included, and gets the final \<open>general\<close> answer.
\<close>

lemma employer_rule_without_secondary_keyword:
  assumes "any_in [''candidate'', ''applicant'', ''resume''] (lower query)"
    and "\<not> any_in [''best'', ''top'', ''recommend'', ''suitable''] (lower query)"
    and "\<not> any_in [''how many'', ''count''] (lower query)"
  shows "parse_employer_query query = \<lparr>intent = ''general'', intent_type = ''help''\<rparr>"
  using assms by (simp add: parse_employer_query_def Let_def)

lemma seeker_rule_without_secondary_keyword:
  assumes "any_in [''job'', ''position'', ''role'', ''opportunity''] (lower query)"
    and "\<not> any_in [''best'', ''top'', ''recommend'', ''suitable''] (lower query)"
    and "\<not> any_in [''how many'', ''count''] (lower query)"
  shows "parse_job_seeker_query query = \<lparr>intent = ''general'', intent_type = ''help''\<rparr>"
  using assms by (simp add: parse_job_seeker_query_def Let_def)

text \<open>
  Claim C6 says that such a query keeps the intent of its rule, with a default type.
  The parsers return \<open>general\<close> instead: so for the employer query
  \<open>Show me qualified candidates\<close>, which is the first suggestion the default response
  of \<open>handle_chat_query\<close> offers an employer, and for the job-seeker query
  \<open>Find me a job\<close>.
\<close>

theorem primary_keyword_alone_routes_to_general:
  "parse_employer_query ''Show me qualified candidates''
     = \<lparr>intent = ''general'', intent_type = ''help''\<rparr>
   \<and> parse_job_seeker_query ''Find me a job''
     = \<lparr>intent = ''general'', intent_type = ''help''\<rparr>
   \<and> suggestions (default_response
        \<lparr>cq_user_id = ''e1'', cq_user_type = ''employer'', cq_query = ''hello'',
         cq_context = None\<rparr>) ! 0 = ''Show me qualified candidates''"
  by code_simp

section \<open>The narrative for zero matches (claim C8)\<close>

text \<open>
  The response for a reply of a match endpoint whose list is empty: the branch is chosen
  by the presence of the key \<open>matches\<close>, so it is the branch of the found matches,
  with the count \<open>0\<close> and the suggestions of that branch.
\<close>

lemma str_nat_zero: "str_nat 0 = ''0''"
  by code_simp

lemma no_candidates_narrative:
  assumes "post_match_candidates srv
             \<lparr>mr_job_description =
                context_get (cq_context query) ''job_description'' ''software developer'',
              mr_top_k = 5, mr_exclude_user_id = Some (cq_user_id query)\<rparr> = Reply reply"
    and "cr_matches reply = []"
  shows "find_candidates_response fmt2f srv query
         = \<lparr>response = ''I found 0 qualified candidates:\<newline>\<newline>'',
            data = Some (CandidateMatches reply),
            suggestions =
              [''Show me more details about candidate 1'', ''Filter by specific skills'',
               ''View candidate portfolios'']\<rparr>"
  using assms
  by (simp add: find_candidates_response_def py_slice_to_Nil str_nat_zero)

lemma no_jobs_narrative:
  assumes "post_match_jobs srv
             \<lparr>jmr_resume_text = context_get (cq_context query) ''resume_text'' [],
              jmr_top_k = 5, jmr_exclude_employer_id = None\<rparr> = Reply reply"
    and "jr_matches reply = []"
  shows "find_jobs_response fmt2f srv query
         = \<lparr>response = ''I found 0 great job opportunities for you:\<newline>\<newline>'',
            data = Some (JobMatches reply),
            suggestions =
              [''Tell me more about the first job'', ''What skills should I improve?'',
               ''Show me remote opportunities'']\<rparr>"
  using assms
  by (simp add: find_jobs_response_def py_slice_to_Nil str_nat_zero)

text \<open>
  Claim C8 says that zero results get the narrative of the other branch (\<open>No matching
  candidates found. Try posting a job description first!\<close>, resp. \<open>I couldn't find any
  job matches right now. Try uploading your resume first!\<close>) and its suggestions. With
  both stores empty, the endpoints answer with an empty list and \<open>handle_chat_query\<close>
  answers an employer and a job seeker from the branch of the found matches.
\<close>

theorem zero_matches_get_the_success_narrative:
  "handle_chat_query (\<lambda>x. ''0.00'')
     \<lparr>post_match_candidates =
        (\<lambda>request. Reply (match_candidates (\<lambda>t. [1]) (\<lambda>u v. 1) request [])),
      post_match_jobs = (\<lambda>request. Reply (match_jobs (\<lambda>t. [1]) (\<lambda>u v. 1) request [])),
      fetch_resume_insights = Reply (get_resume_insights (\<lambda>xs. xs) []),
      fetch_job_insights = Reply (get_job_insights (\<lambda>xs. xs) [])\<rparr>
     \<lparr>cq_user_id = ''e1'', cq_user_type = ''employer'',
      cq_query = ''Show me the best candidates for my latest job posting'',
      cq_context = Some [(''job_description'', ''software developer position'')]\<rparr>
   = \<lparr>response = ''I found 0 qualified candidates:\<newline>\<newline>'',
      data = Some (CandidateMatches
               \<lparr>cr_matches = [], cr_message = Some ''No resumes available'',
                cr_total_candidates = None\<rparr>),
      suggestions =
        [''Show me more details about candidate 1'', ''Filter by specific skills'',
         ''View candidate portfolios'']\<rparr>
   \<and> handle_chat_query (\<lambda>x. ''0.00'')
     \<lparr>post_match_candidates =
        (\<lambda>request. Reply (match_candidates (\<lambda>t. [1]) (\<lambda>u v. 1) request [])),
      post_match_jobs = (\<lambda>request. Reply (match_jobs (\<lambda>t. [1]) (\<lambda>u v. 1) request [])),
      fetch_resume_insights = Reply (get_resume_insights (\<lambda>xs. xs) []),
      fetch_job_insights = Reply (get_job_insights (\<lambda>xs. xs) [])\<rparr>
     \<lparr>cq_user_id = ''s1'', cq_user_type = ''job_seeker'',
      cq_query = ''Find me the best jobs that match my skills'',
      cq_context = Some [(''resume_text'', ''sample resume text'')]\<rparr>
   = \<lparr>response = ''I found 0 great job opportunities for you:\<newline>\<newline>'',
      data = Some (JobMatches
               \<lparr>jr_matches = [], jr_message = Some ''No jobs available'',
                jr_total_jobs = None\<rparr>),
      suggestions =
        [''Tell me more about the first job'', ''What skills should I improve?'',
         ''Show me remote opportunities'']\<rparr>"
  by code_simp

end
